theory Spec2Isabelle
  imports Main "HOL-Library.Word" "HOL-Library.Multiset" "HOL-Library.Mapping"
    "HOL-Library.Char_ord" "HOL-Library.List_Lexorder"
begin

section \<open>Text and subtitle containers of common/serialization/subtitles/subtitles_ser.h\<close>

text \<open>
  A shallow embedding of the in-memory containers declared in
  \<^verbatim>\<open>subtitles_ser.h\<close>: \<^verbatim>\<open>GameTextBank\<close>, \<^verbatim>\<open>GameTextDB\<close>,
  \<^verbatim>\<open>GameSubtitleSceneInfo\<close>, \<^verbatim>\<open>GameSubtitleBank\<close>, \<^verbatim>\<open>GameSubtitleGroups\<close>
  and \<^verbatim>\<open>GameSubtitleDB\<close>.

  \<^item> A C++ \<^verbatim>\<open>int\<close> is a 32-bit two's complement word; it is read with \<open>sint\<close>
    wherever the code compares two of them.
  \<^item> \<^verbatim>\<open>std::map\<close> and \<^verbatim>\<open>std::unordered_map\<close> are partial maps; \<^verbatim>\<open>find(k) != end()\<close>
    is \<open>m k \<noteq> None\<close>.
  \<^item> A member function that mutates \<^verbatim>\<open>*this\<close> takes the object last and returns the
    new object.
  \<^item> What aborts or throws in C++ is a value \<open>Inl e\<close> of \<open>error + 'a\<close>.
\<close>

subsection \<open>Errors\<close>

text \<open>
  \<open>NotFound\<close> is the \<^verbatim>\<open>std::out_of_range\<close> that \<^verbatim>\<open>map::at\<close> throws on a missing key.
  \<open>DuplicateKey\<close> is a failed \<^verbatim>\<open>ASSERT(!..._exists(key))\<close>. \<open>NullDeref\<close> stands for
  \<^verbatim>\<open>bank->lang()\<close> on a \<^verbatim>\<open>shared_ptr\<close> that owns no object.
\<close>

datatype error = NotFound | DuplicateKey | NullDeref

type_synonym int32 = "32 word"

text \<open>\<^verbatim>\<open>m.at(k)\<close> of \<^verbatim>\<open>std::map\<close> and \<^verbatim>\<open>std::unordered_map\<close>.\<close>

definition at :: "('k \<rightharpoonup> 'v) \<Rightarrow> 'k \<Rightarrow> error + 'v" where
  "at m k = (case m k of None \<Rightarrow> Inl NotFound | Some v \<Rightarrow> Inr v)"

text \<open>
  Modelled from the spec: the macro \<^verbatim>\<open>ASSERT\<close> of \<^verbatim>\<open>common/util/Assert.h\<close> is not
  among the sources. By the spec an operation fails with DuplicateKey when its
  \<^verbatim>\<open>ASSERT(!..._exists(key))\<close> does not hold, and a failed operation leaves the
  container unchanged; the assertion is the first statement of each such operation.
  \<open>ASSERT c e s k\<close> is that: the error \<open>e\<close> and the state \<open>s\<close> of the call when \<open>c\<close> is
  false, the rest \<open>k\<close> of the body otherwise.
\<close>

definition ASSERT :: "bool \<Rightarrow> error \<Rightarrow> 's \<Rightarrow> (error + 'a) \<times> 's \<Rightarrow> (error + 'a) \<times> 's" where
  "ASSERT c e s k = (if c then k else (Inl e, s))"

subsection \<open>Shared pointers\<close>

text \<open>
  The databases hold \<^verbatim>\<open>std::shared_ptr\<close>s to their banks and hand the same pointers
  out, so a bank lives in a store and a pointer is the address of its object, or
  \<^verbatim>\<open>nullptr\<close>. \<open>deref h p\<close> is \<^verbatim>\<open>*p\<close> in the store \<open>h\<close>.
\<close>

datatype shared_ptr = nullptr | Ptr nat

type_synonym 'a heap = "nat \<rightharpoonup> 'a"

definition deref :: "'a heap \<Rightarrow> shared_ptr \<Rightarrow> error + 'a" where
  "deref h p =
     (case p of
        nullptr \<Rightarrow> Inl NullDeref
      | Ptr a \<Rightarrow> (case h a of None \<Rightarrow> Inl NullDeref | Some v \<Rightarrow> Inr v))"

subsection \<open>GameTextBank\<close>

text \<open>
  \<^verbatim>\<open>
  class GameTextBank {
    GameTextBank(int lang_id) : m_lang_id(lang_id) {}
    int lang() const { return m_lang_id; }
    bool line_exists(int id) const { return m_lines.find(id) != m_lines.end(); }
    std::string line(int id) { return m_lines.at(id); }
    void set_line(int id, std::string line) { m_lines[id] = line; }
    int m_lang_id;
    std::map<int, std::string> m_lines;
  };
  \<close>
  Several classes of the header have a member of the same name (\<^verbatim>\<open>lang\<close>,
  \<^verbatim>\<open>bank_exists\<close>, \<^verbatim>\<open>add_bank\<close>, \<^verbatim>\<open>bank_by_id\<close>, \<^verbatim>\<open>add_scene\<close>, \<^verbatim>\<open>m_lines\<close>, ...):
  such a function carries its class in its name, and such a field is written with its
  record, \<open>GameTextBank.m_lines\<close>.
\<close>

record GameTextBank =
  m_lang_id :: int32
  m_lines :: "int32 \<rightharpoonup> string"

definition new_GameTextBank :: "int32 \<Rightarrow> GameTextBank" where
  "new_GameTextBank lang_id = \<lparr>m_lang_id = lang_id, m_lines = Map.empty\<rparr>"

definition GameTextBank_lang :: "GameTextBank \<Rightarrow> int32" where
  "GameTextBank_lang b = GameTextBank.m_lang_id b"

definition line_exists :: "int32 \<Rightarrow> GameTextBank \<Rightarrow> bool" where
  "line_exists i b = (GameTextBank.m_lines b i \<noteq> None)"

definition GameTextBank_line :: "int32 \<Rightarrow> GameTextBank \<Rightarrow> error + string" where
  "GameTextBank_line i b = at (GameTextBank.m_lines b) i"

text \<open>\<^verbatim>\<open>set_line\<close> returns \<^verbatim>\<open>void\<close> and has no failing statement: its result is the bank.\<close>

definition set_line :: "int32 \<Rightarrow> string \<Rightarrow> GameTextBank \<Rightarrow> GameTextBank" where
  "set_line i l b = b\<lparr>GameTextBank.m_lines := (GameTextBank.m_lines b)(i \<mapsto> l)\<rparr>"

subsection \<open>GameTextDB\<close>

text \<open>
  \<^verbatim>\<open>
  const std::map<int, std::shared_ptr<GameTextBank>>& banks(std::string group) const {
    return m_banks.at(group);
  }
  bool bank_exists(std::string group, int id) const {
    if (m_banks.find(group) == m_banks.end())
      return false;
    return m_banks.at(group).find(id) != m_banks.at(group).end();
  }
  std::shared_ptr<GameTextBank> add_bank(std::string group, std::shared_ptr<GameTextBank> bank) {
    ASSERT(!bank_exists(group, bank->lang()));
    m_banks[group][bank->lang()] = bank;
    return bank;
  }
  std::shared_ptr<GameTextBank> bank_by_id(std::string group, int id) {
    if (!bank_exists(group, id)) {
      return nullptr;
    }
    return m_banks.at(group).at(id);
  }
  std::unordered_map<std::string, std::map<int, std::shared_ptr<GameTextBank>>> m_banks;
  \<close>
\<close>

record GameTextDB =
  m_banks :: "string \<rightharpoonup> (int32 \<rightharpoonup> shared_ptr)"

definition new_GameTextDB :: GameTextDB where
  "new_GameTextDB = \<lparr>m_banks = Map.empty\<rparr>"

definition groups :: "GameTextDB \<Rightarrow> (string \<rightharpoonup> (int32 \<rightharpoonup> shared_ptr))" where
  "groups db = GameTextDB.m_banks db"

definition GameTextDB_banks :: "string \<Rightarrow> GameTextDB \<Rightarrow> error + (int32 \<rightharpoonup> shared_ptr)" where
  "GameTextDB_banks grp db = at (GameTextDB.m_banks db) grp"

text \<open>
  In \<^verbatim>\<open>bank_exists\<close> the two \<^verbatim>\<open>m_banks.at(group)\<close> come after the test that \<^verbatim>\<open>group\<close>
  is a key: they read the map found there.
\<close>

definition GameTextDB_bank_exists :: "string \<Rightarrow> int32 \<Rightarrow> GameTextDB \<Rightarrow> bool" where
  "GameTextDB_bank_exists grp i db =
     (case GameTextDB.m_banks db grp of
        None \<Rightarrow> False
      | Some bs \<Rightarrow> bs i \<noteq> None)"

text \<open>
  \<^verbatim>\<open>m_banks[group]\<close>: the map under \<^verbatim>\<open>group\<close>, a new empty one when \<^verbatim>\<open>group\<close> is not a key.
\<close>

definition subscript :: "('k \<rightharpoonup> ('j \<rightharpoonup> 'v)) \<Rightarrow> 'k \<Rightarrow> ('j \<rightharpoonup> 'v)" where
  "subscript m k = (case m k of None \<Rightarrow> Map.empty | Some bs \<Rightarrow> bs)"

definition GameTextDB_add_bank ::
  "GameTextBank heap \<Rightarrow> string \<Rightarrow> shared_ptr \<Rightarrow> GameTextDB \<Rightarrow> (error + shared_ptr) \<times> GameTextDB" where
  "GameTextDB_add_bank h grp bank db =
     (case deref h bank of
        Inl e \<Rightarrow> (Inl e, db)
      | Inr b \<Rightarrow>
          ASSERT (\<not> GameTextDB_bank_exists grp (GameTextBank_lang b) db) DuplicateKey db
            (Inr bank,
             db\<lparr>GameTextDB.m_banks := (GameTextDB.m_banks db)
                  (grp \<mapsto> (subscript (GameTextDB.m_banks db) grp)(GameTextBank_lang b \<mapsto> bank))\<rparr>))"

definition GameTextDB_bank_by_id :: "string \<Rightarrow> int32 \<Rightarrow> GameTextDB \<Rightarrow> error + shared_ptr" where
  "GameTextDB_bank_by_id grp i db =
     (if \<not> GameTextDB_bank_exists grp i db then Inr nullptr
      else (case at (GameTextDB.m_banks db) grp of
              Inl e \<Rightarrow> Inl e
            | Inr bs \<Rightarrow> at bs i))"

subsection \<open>GameSubtitleSceneInfo\<close>

text \<open>
  \<^verbatim>\<open>
  enum class SubtitleSceneKind { Invalid = -1, Movie = 0, Hint = 1, HintNamed = 2 };
  struct SubtitleLine {
    int frame;
    std::string line;
    std::string speaker;
    bool offscreen;
    bool operator<(const SubtitleLine& other) const { return (frame < other.frame); }
  };
  \<close>
\<close>

datatype SubtitleSceneKind = Invalid | Movie | Hint | HintNamed

record SubtitleLine =
  frame :: int32
  line :: string
  speaker :: string
  offscreen :: bool

definition SubtitleLine_less :: "SubtitleLine \<Rightarrow> SubtitleLine \<Rightarrow> bool" where
  "SubtitleLine_less a other = (sint (frame a) < sint (frame other))"

text \<open>
  \<^verbatim>\<open>
  GameSubtitleSceneInfo(SubtitleSceneKind kind) : m_kind(kind), m_id(0), m_sorting_group_idx(-1) {}
  void clear_lines() { m_lines.clear(); }
  void set_name(const std::string& new_name) { m_name = new_name; }
  void set_id(int new_id) { m_id = new_id; }
  void from_other_scene(GameSubtitleSceneInfo& scene) {
    m_name = scene.name();
    m_lines = scene.lines();
    m_kind = scene.kind();
    m_id = scene.id();
  }
  void add_line(int frame, std::string line, std::string speaker, bool offscreen) {
    m_lines.emplace_back(SubtitleLine(frame, line, speaker, offscreen));
    std::sort(m_lines.begin(), m_lines.end());
  }
  void add_clear_entry(int frame) {
    m_lines.emplace_back(SubtitleLine(frame, "", "", false));
    std::sort(m_lines.begin(), m_lines.end());
  }
  std::string m_name;
  int m_id;
  std::vector<SubtitleLine> m_lines;
  SubtitleSceneKind m_kind;
  std::string m_sorting_group;
  int m_sorting_group_idx;
  \<close>
  The accessors \<^verbatim>\<open>name()\<close>, \<^verbatim>\<open>lines()\<close>, \<^verbatim>\<open>id()\<close> and \<^verbatim>\<open>kind()\<close> return the fields
  \<open>m_name\<close>, \<open>m_lines\<close>, \<open>m_id\<close> and \<open>m_kind\<close>.
\<close>

record GameSubtitleSceneInfo =
  m_name :: string
  m_id :: int32
  m_lines :: "SubtitleLine list"
  m_kind :: SubtitleSceneKind
  m_sorting_group :: string
  m_sorting_group_idx :: int32

definition new_GameSubtitleSceneInfo :: "SubtitleSceneKind \<Rightarrow> GameSubtitleSceneInfo" where
  "new_GameSubtitleSceneInfo kind =
     \<lparr>m_name = [], m_id = 0, m_lines = [], m_kind = kind,
      m_sorting_group = [], m_sorting_group_idx = - 1\<rparr>"

definition clear_lines :: "GameSubtitleSceneInfo \<Rightarrow> GameSubtitleSceneInfo" where
  "clear_lines sc = sc\<lparr>m_lines := []\<rparr>"

definition set_name :: "string \<Rightarrow> GameSubtitleSceneInfo \<Rightarrow> GameSubtitleSceneInfo" where
  "set_name new_name sc = sc\<lparr>m_name := new_name\<rparr>"

definition set_id :: "int32 \<Rightarrow> GameSubtitleSceneInfo \<Rightarrow> GameSubtitleSceneInfo" where
  "set_id new_id sc = sc\<lparr>m_id := new_id\<rparr>"

definition from_other_scene :: "GameSubtitleSceneInfo \<Rightarrow> GameSubtitleSceneInfo \<Rightarrow> GameSubtitleSceneInfo" where
  "from_other_scene scene sc =
     sc\<lparr>m_name := m_name scene, m_lines := m_lines scene, m_kind := m_kind scene, m_id := m_id scene\<rparr>"

text \<open>
  \<^verbatim>\<open>std::sort\<close> belongs to the C++ standard library, not to this repository, so the
  two functions that call it take it as a parameter \<open>srt\<close>. What the C++ standard
  promises of \<^verbatim>\<open>std::sort(first, last)\<close> is \<open>std_sort_contract\<close>: the range holds the
  same elements as before, and no element is less (\<^verbatim>\<open>operator<\<close>) than an element before
  it. The standard leaves the order of equivalent elements open.
\<close>

type_synonym sorter = "SubtitleLine list \<Rightarrow> SubtitleLine list"

definition std_sort_contract :: "sorter \<Rightarrow> bool" where
  "std_sort_contract srt =
     (\<forall>xs. mset (srt xs) = mset xs \<and> sorted_wrt (\<lambda>a b. \<not> SubtitleLine_less b a) (srt xs))"

definition add_line ::
  "sorter \<Rightarrow> int32 \<Rightarrow> string \<Rightarrow> string \<Rightarrow> bool \<Rightarrow> GameSubtitleSceneInfo \<Rightarrow> GameSubtitleSceneInfo" where
  "add_line srt f l sp off sc =
     sc\<lparr>m_lines := srt (m_lines sc @ [\<lparr>frame = f, line = l, speaker = sp, offscreen = off\<rparr>])\<rparr>"

definition add_clear_entry :: "sorter \<Rightarrow> int32 \<Rightarrow> GameSubtitleSceneInfo \<Rightarrow> GameSubtitleSceneInfo" where
  "add_clear_entry srt f sc =
     sc\<lparr>m_lines := srt (m_lines sc @ [\<lparr>frame = f, line = [], speaker = [], offscreen = False\<rparr>])\<rparr>"

text \<open>
  A sequence of \<^verbatim>\<open>add_line\<close> and \<^verbatim>\<open>add_clear_entry\<close> calls, the line each call appends,
  and the scene after the calls.
\<close>

datatype scene_call = AddLine int32 string string bool | AddClearEntry int32

fun call_line :: "scene_call \<Rightarrow> SubtitleLine" where
  "call_line (AddLine f l sp off) = \<lparr>frame = f, line = l, speaker = sp, offscreen = off\<rparr>"
| "call_line (AddClearEntry f) = \<lparr>frame = f, line = [], speaker = [], offscreen = False\<rparr>"

fun run_call :: "sorter \<Rightarrow> scene_call \<Rightarrow> GameSubtitleSceneInfo \<Rightarrow> GameSubtitleSceneInfo" where
  "run_call srt (AddLine f l sp off) sc = add_line srt f l sp off sc"
| "run_call srt (AddClearEntry f) sc = add_clear_entry srt f sc"

fun run_calls :: "sorter \<Rightarrow> scene_call list \<Rightarrow> GameSubtitleSceneInfo \<Rightarrow> GameSubtitleSceneInfo" where
  "run_calls srt [] sc = sc"
| "run_calls srt (c # cs) sc = run_calls srt cs (run_call srt c sc)"

text \<open>
  Two sorting functions that meet the contract (lemmas \<open>std_sort_contract_stable_sort\<close> and
  \<open>std_sort_contract_reversing_sort\<close>): one keeps lines of equal frame in the order
  it finds them, the other reverses them.
\<close>

definition stable_sort :: sorter where
  "stable_sort xs = sort_key (\<lambda>l. sint (frame l)) xs"

definition reversing_sort :: sorter where
  "reversing_sort xs = sort_key (\<lambda>l. sint (frame l)) (rev xs)"

subsection \<open>std::sort as GNU libstdc++ implements it\<close>

text \<open>
  The contract leaves open what \<^verbatim>\<open>std::sort\<close> does with lines of equal frame; the
  library the program is linked with decides it. This is \<^verbatim>\<open>std::sort\<close> of GNU
  libstdc++ (\<^verbatim>\<open>bits/stl_algo.h\<close> and \<^verbatim>\<open>bits/stl_heap.h\<close>), function by function, with
  the library's names less their leading underscores. The vector is a list, an
  iterator is an index into it, and \<open>lt\<close> is the comparison (\<^verbatim>\<open>operator<\<close>).
  \<^verbatim>\<open>
  void sort(first, last) {
    if (first != last) {
      introsort_loop(first, last, lg(last - first) * 2);
      final_insertion_sort(first, last);
    }
  }
  enum { S_threshold = 16 };
  void introsort_loop(first, last, depth_limit) {
    while (last - first > S_threshold) {
      if (depth_limit == 0) { partial_sort(first, last, last); return; }
      --depth_limit;
      cut = unguarded_partition_pivot(first, last);
      introsort_loop(cut, last, depth_limit);
      last = cut;
    }
  }
  unguarded_partition_pivot(first, last) {
    mid = first + (last - first) / 2;
    move_median_to_first(first, first + 1, mid, last - 1);
    return unguarded_partition(first + 1, last, first);
  }
  void move_median_to_first(result, a, b, c) {
    if (*a < *b) {
      if (*b < *c) iter_swap(result, b);
      else if (*a < *c) iter_swap(result, c);
      else iter_swap(result, a);
    }
    else if (*a < *c) iter_swap(result, a);
    else if (*b < *c) iter_swap(result, c);
    else iter_swap(result, b);
  }
  unguarded_partition(first, last, pivot) {
    while (true) {
      while (*first < *pivot) ++first;
      --last;
      while (*pivot < *last) --last;
      if (!(first < last)) return first;
      iter_swap(first, last);
      ++first;
    }
  }
  \<close>
  The two inner loops of \<^verbatim>\<open>unguarded_partition\<close> and the loop of
  \<^verbatim>\<open>unguarded_linear_insert\<close> have no bound of their own in the library, which calls
  them only where an element of the range stops them. \<open>scan_up\<close>, \<open>scan_down\<close> and
  \<open>unguarded_linear_insert\<close> stop at the ends of the vector as well.
\<close>

definition iter_swap :: "nat \<Rightarrow> nat \<Rightarrow> 'a list \<Rightarrow> 'a list" where
  "iter_swap i j xs = xs[i := xs ! j, j := xs ! i]"

text \<open>\<^verbatim>\<open>lg(n)\<close> is the position of the highest set bit of \<open>n\<close>: the logarithm to base 2, rounded down.\<close>

fun lg :: "nat \<Rightarrow> nat" where
  "lg n = (if n < 2 then 0 else Suc (lg (n div 2)))"

declare lg.simps [simp del]

definition move_median_to_first ::
  "('a \<Rightarrow> 'a \<Rightarrow> bool) \<Rightarrow> nat \<Rightarrow> nat \<Rightarrow> nat \<Rightarrow> nat \<Rightarrow> 'a list \<Rightarrow> 'a list" where
  "move_median_to_first lt result a b c xs =
     (if lt (xs ! a) (xs ! b) then
        (if lt (xs ! b) (xs ! c) then iter_swap result b xs
         else if lt (xs ! a) (xs ! c) then iter_swap result c xs
         else iter_swap result a xs)
      else if lt (xs ! a) (xs ! c) then iter_swap result a xs
      else if lt (xs ! b) (xs ! c) then iter_swap result c xs
      else iter_swap result b xs)"

function scan_up :: "('a \<Rightarrow> 'a \<Rightarrow> bool) \<Rightarrow> 'a list \<Rightarrow> nat \<Rightarrow> nat \<Rightarrow> nat" where
  "scan_up lt xs pivot first =
     (if first < length xs \<and> lt (xs ! first) (xs ! pivot) then scan_up lt xs pivot (Suc first)
      else first)"
  by pat_completeness auto
termination
  by (relation "measure (\<lambda>(lt, xs, pivot, first). length xs - first)") auto

declare scan_up.simps [simp del]

fun scan_down :: "('a \<Rightarrow> 'a \<Rightarrow> bool) \<Rightarrow> 'a list \<Rightarrow> nat \<Rightarrow> nat \<Rightarrow> nat" where
  "scan_down lt xs pivot lst =
     (if 0 < lst \<and> lt (xs ! pivot) (xs ! lst) then scan_down lt xs pivot (lst - 1)
      else lst)"

declare scan_down.simps [simp del]

text \<open>
  One round of the outer loop of \<^verbatim>\<open>unguarded_partition\<close> moves \<^verbatim>\<open>first\<close> up, steps
  \<^verbatim>\<open>last\<close> down and moves it further down, and returns or swaps and goes on. The
  result is the cut and the vector.
\<close>

function unguarded_partition ::
  "('a \<Rightarrow> 'a \<Rightarrow> bool) \<Rightarrow> nat \<Rightarrow> nat \<Rightarrow> nat \<Rightarrow> 'a list \<Rightarrow> nat \<times> 'a list" where
  "unguarded_partition lt first lst pivot xs =
     (if \<not> scan_up lt xs pivot first < scan_down lt xs pivot (lst - 1)
      then (scan_up lt xs pivot first, xs)
      else unguarded_partition lt (Suc (scan_up lt xs pivot first))
             (scan_down lt xs pivot (lst - 1)) pivot
             (iter_swap (scan_up lt xs pivot first) (scan_down lt xs pivot (lst - 1)) xs))"
  by pat_completeness auto
termination
proof (relation "measure (\<lambda>(lt, first, lst, pivot, xs). lst)")
  show "wf (measure (\<lambda>(lt, first, lst, pivot, xs). lst))"
    by simp
next
  fix lt :: "'a \<Rightarrow> 'a \<Rightarrow> bool" and first lst pivot :: nat and xs :: "'a list"
  have le: "scan_down lt xs pivot l \<le> l" for l
  proof (induction l)
    case 0
    show ?case by (subst scan_down.simps) simp
  next
    case (Suc l)
    show ?case
    proof (cases "lt (xs ! pivot) (xs ! Suc l)")
      case True
      then have "scan_down lt xs pivot (Suc l) = scan_down lt xs pivot l"
        by (subst scan_down.simps) simp
      with Suc show ?thesis by simp
    next
      case False
      then have "scan_down lt xs pivot (Suc l) = Suc l"
        by (subst scan_down.simps) simp
      then show ?thesis by simp
    qed
  qed
  assume "\<not> \<not> scan_up lt xs pivot first < scan_down lt xs pivot (lst - 1)"
  then have "0 < scan_down lt xs pivot (lst - 1)"
    by simp
  moreover have "scan_down lt xs pivot (lst - 1) \<le> lst - 1"
    by (rule le)
  ultimately have "scan_down lt xs pivot (lst - 1) < lst"
    by simp
  then show "((lt, Suc (scan_up lt xs pivot first), scan_down lt xs pivot (lst - 1), pivot,
          iter_swap (scan_up lt xs pivot first) (scan_down lt xs pivot (lst - 1)) xs),
         lt, first, lst, pivot, xs) \<in> measure (\<lambda>(lt, first, lst, pivot, xs). lst)"
    by simp
qed

declare unguarded_partition.simps [simp del]

definition unguarded_partition_pivot ::
  "('a \<Rightarrow> 'a \<Rightarrow> bool) \<Rightarrow> nat \<Rightarrow> nat \<Rightarrow> 'a list \<Rightarrow> nat \<times> 'a list" where
  "unguarded_partition_pivot lt first lst xs =
     unguarded_partition lt (first + 1) lst first
       (move_median_to_first lt first (first + 1) (first + (lst - first) div 2) (lst - 1) xs)"

text \<open>
  \<^verbatim>\<open>
  void final_insertion_sort(first, last) {
    if (last - first > S_threshold) {
      insertion_sort(first, first + S_threshold);
      unguarded_insertion_sort(first + S_threshold, last);
    } else
      insertion_sort(first, last);
  }
  void insertion_sort(first, last) {
    if (first == last) return;
    for (i = first + 1; i != last; ++i) {
      if (*i < *first) {
        val = move(*i);
        move_backward(first, i, i + 1);
        *first = move(val);
      } else
        unguarded_linear_insert(i);
    }
  }
  void unguarded_linear_insert(last) {
    val = move(*last);
    next = last; --next;
    while (val < *next) { *last = move(*next); last = next; --next; }
    *last = move(val);
  }
  void unguarded_insertion_sort(first, last) {
    for (i = first; i != last; ++i) unguarded_linear_insert(i);
  }
  \<close>
  A \<^verbatim>\<open>for\<close> loop over a fixed range of indices is a \<open>fold\<close> over that range.
  \<open>move_backward first i xs\<close> is the vector after \<^verbatim>\<open>move_backward(first, i, i + 1)\<close>:
  the elements at \<open>first\<close>, ..., \<open>i - 1\<close> are one place further up.
\<close>

function unguarded_linear_insert :: "('a \<Rightarrow> 'a \<Rightarrow> bool) \<Rightarrow> 'a \<Rightarrow> nat \<Rightarrow> 'a list \<Rightarrow> 'a list" where
  "unguarded_linear_insert lt val lst xs =
     (if 0 < lst \<and> lt val (xs ! (lst - 1))
      then unguarded_linear_insert lt val (lst - 1) (xs[lst := xs ! (lst - 1)])
      else xs[lst := val])"
  by pat_completeness auto
termination
  by (relation "measure (\<lambda>(lt, val, lst, xs). lst)") auto

declare unguarded_linear_insert.simps [simp del]

definition move_backward :: "nat \<Rightarrow> nat \<Rightarrow> 'a list \<Rightarrow> 'a list" where
  "move_backward first i xs = take (Suc first) xs @ take (i - first) (drop first xs) @ drop (Suc i) xs"

definition insertion_sort :: "('a \<Rightarrow> 'a \<Rightarrow> bool) \<Rightarrow> nat \<Rightarrow> nat \<Rightarrow> 'a list \<Rightarrow> 'a list" where
  "insertion_sort lt first lst xs =
     (if first = lst then xs
      else fold (\<lambda>i ys. if lt (ys ! i) (ys ! first)
                         then (move_backward first i ys)[first := ys ! i]
                         else unguarded_linear_insert lt (ys ! i) i ys)
             [Suc first..<lst] xs)"

definition unguarded_insertion_sort :: "('a \<Rightarrow> 'a \<Rightarrow> bool) \<Rightarrow> nat \<Rightarrow> nat \<Rightarrow> 'a list \<Rightarrow> 'a list" where
  "unguarded_insertion_sort lt first lst xs =
     fold (\<lambda>i ys. unguarded_linear_insert lt (ys ! i) i ys) [first..<lst] xs"

definition final_insertion_sort :: "('a \<Rightarrow> 'a \<Rightarrow> bool) \<Rightarrow> nat \<Rightarrow> nat \<Rightarrow> 'a list \<Rightarrow> 'a list" where
  "final_insertion_sort lt first lst xs =
     (if lst - first > 16
      then unguarded_insertion_sort lt (first + 16) lst (insertion_sort lt first (first + 16) xs)
      else insertion_sort lt first lst xs)"

text \<open>
  The heap sort that \<^verbatim>\<open>introsort_loop\<close> falls back to when its depth limit is used up.
  \<^verbatim>\<open>
  void partial_sort(first, middle, last) {
    heap_select(first, middle, last);
    sort_heap(first, middle);
  }
  void heap_select(first, middle, last) {
    make_heap(first, middle);
    for (i = middle; i < last; ++i)
      if (*i < *first) pop_heap(first, middle, i);
  }
  void make_heap(first, last) {
    if (last - first < 2) return;
    len = last - first;
    parent = (len - 2) / 2;
    while (true) {
      value = move(*(first + parent));
      adjust_heap(first, parent, len, move(value));
      if (parent == 0) return;
      parent--;
    }
  }
  void sort_heap(first, last) {
    while (last - first > 1) { --last; pop_heap(first, last, last); }
  }
  void pop_heap(first, last, result) {
    value = move(*result);
    *result = move(*first);
    adjust_heap(first, 0, last - first, move(value));
  }
  void adjust_heap(first, holeIndex, len, value) {
    topIndex = holeIndex;
    secondChild = holeIndex;
    while (secondChild < (len - 1) / 2) {
      secondChild = 2 * (secondChild + 1);
      if (*(first + secondChild) < *(first + (secondChild - 1))) secondChild--;
      *(first + holeIndex) = move(*(first + secondChild));
      holeIndex = secondChild;
    }
    if ((len & 1) == 0 && secondChild == (len - 2) / 2) {
      secondChild = 2 * (secondChild + 1);
      *(first + holeIndex) = move(*(first + (secondChild - 1)));
      holeIndex = secondChild - 1;
    }
    push_heap(first, holeIndex, topIndex, move(value));
  }
  void push_heap(first, holeIndex, topIndex, value) {
    parent = (holeIndex - 1) / 2;
    while (holeIndex > topIndex && *(first + parent) < value) {
      *(first + holeIndex) = move(*(first + parent));
      holeIndex = parent;
      parent = (holeIndex - 1) / 2;
    }
    *(first + holeIndex) = move(value);
  }
  \<close>
  \<open>second_child\<close> is the new \<^verbatim>\<open>secondChild\<close> of one round of the loop of
  \<^verbatim>\<open>adjust_heap\<close>, \<open>sift_down\<close> is that loop, with the hole, \<^verbatim>\<open>secondChild\<close> and the
  vector as its result. The indices are signed in the library: the test \<open>0 < len\<close> in
  \<open>adjust_heap\<close> keeps \<^verbatim>\<open>(len - 2) / 2\<close> what it is there for a length of 0.
\<close>

function push_heap :: "('a \<Rightarrow> 'a \<Rightarrow> bool) \<Rightarrow> nat \<Rightarrow> nat \<Rightarrow> nat \<Rightarrow> 'a \<Rightarrow> 'a list \<Rightarrow> 'a list" where
  "push_heap lt first holeIndex topIndex val xs =
     (if holeIndex > topIndex \<and> lt (xs ! (first + (holeIndex - 1) div 2)) val
      then push_heap lt first ((holeIndex - 1) div 2) topIndex val
             (xs[first + holeIndex := xs ! (first + (holeIndex - 1) div 2)])
      else xs[first + holeIndex := val])"
  by pat_completeness auto
termination
  by (relation "measure (\<lambda>(lt, first, holeIndex, topIndex, val, xs). holeIndex)") auto

declare push_heap.simps [simp del]

definition second_child :: "('a \<Rightarrow> 'a \<Rightarrow> bool) \<Rightarrow> nat \<Rightarrow> nat \<Rightarrow> 'a list \<Rightarrow> nat" where
  "second_child lt first secondChild xs =
     (if lt (xs ! (first + 2 * (secondChild + 1))) (xs ! (first + (2 * (secondChild + 1) - 1)))
      then 2 * (secondChild + 1) - 1
      else 2 * (secondChild + 1))"

function sift_down ::
  "('a \<Rightarrow> 'a \<Rightarrow> bool) \<Rightarrow> nat \<Rightarrow> nat \<Rightarrow> nat \<Rightarrow> nat \<Rightarrow> 'a list \<Rightarrow> nat \<times> nat \<times> 'a list" where
  "sift_down lt first len holeIndex secondChild xs =
     (if secondChild < (len - 1) div 2
      then sift_down lt first len
             (second_child lt first secondChild xs) (second_child lt first secondChild xs)
             (xs[first + holeIndex := xs ! (first + second_child lt first secondChild xs)])
      else (holeIndex, secondChild, xs))"
  by pat_completeness auto
termination
proof (relation "measure (\<lambda>(lt, first, len, holeIndex, secondChild, xs). (len - 1) div 2 - secondChild)")
  show "wf (measure (\<lambda>(lt, first, len, holeIndex, secondChild, xs). (len - 1) div 2 - secondChild))"
    by simp
next
  fix lt :: "'a \<Rightarrow> 'a \<Rightarrow> bool" and first len holeIndex secondChild :: nat and xs :: "'a list"
  have gt: "secondChild < second_child lt first secondChild xs"
    by (simp add: second_child_def)
  assume "secondChild < (len - 1) div 2"
  then show "((lt, first, len, second_child lt first secondChild xs, second_child lt first secondChild xs,
           xs[first + holeIndex := xs ! (first + second_child lt first secondChild xs)]),
          lt, first, len, holeIndex, secondChild, xs)
         \<in> measure (\<lambda>(lt, first, len, holeIndex, secondChild, xs). (len - 1) div 2 - secondChild)"
    using gt by simp
qed

declare sift_down.simps [simp del]

definition adjust_heap :: "('a \<Rightarrow> 'a \<Rightarrow> bool) \<Rightarrow> nat \<Rightarrow> nat \<Rightarrow> nat \<Rightarrow> 'a \<Rightarrow> 'a list \<Rightarrow> 'a list" where
  "adjust_heap lt first holeIndex len val xs =
     (case sift_down lt first len holeIndex holeIndex xs of
        (hole, secondChild, ys) \<Rightarrow>
          if even len \<and> 0 < len \<and> secondChild = (len - 2) div 2
          then push_heap lt first (2 * (secondChild + 1) - 1) holeIndex val
                 (ys[first + hole := ys ! (first + (2 * (secondChild + 1) - 1))])
          else push_heap lt first hole holeIndex val ys)"

definition pop_heap :: "('a \<Rightarrow> 'a \<Rightarrow> bool) \<Rightarrow> nat \<Rightarrow> nat \<Rightarrow> nat \<Rightarrow> 'a list \<Rightarrow> 'a list" where
  "pop_heap lt first lst result xs =
     adjust_heap lt first 0 (lst - first) (xs ! result) (xs[result := xs ! first])"

definition make_heap :: "('a \<Rightarrow> 'a \<Rightarrow> bool) \<Rightarrow> nat \<Rightarrow> nat \<Rightarrow> 'a list \<Rightarrow> 'a list" where
  "make_heap lt first lst xs =
     (if lst - first < 2 then xs
      else fold (\<lambda>parent ys. adjust_heap lt first parent (lst - first) (ys ! (first + parent)) ys)
             (rev [0..<Suc ((lst - first - 2) div 2)]) xs)"

definition sort_heap :: "('a \<Rightarrow> 'a \<Rightarrow> bool) \<Rightarrow> nat \<Rightarrow> nat \<Rightarrow> 'a list \<Rightarrow> 'a list" where
  "sort_heap lt first lst xs = fold (\<lambda>l ys. pop_heap lt first l l ys) (rev [Suc first..<lst]) xs"

definition heap_select :: "('a \<Rightarrow> 'a \<Rightarrow> bool) \<Rightarrow> nat \<Rightarrow> nat \<Rightarrow> nat \<Rightarrow> 'a list \<Rightarrow> 'a list" where
  "heap_select lt first middle lst xs =
     fold (\<lambda>i ys. if lt (ys ! i) (ys ! first) then pop_heap lt first middle i ys else ys)
       [middle..<lst] (make_heap lt first middle xs)"

definition partial_sort :: "('a \<Rightarrow> 'a \<Rightarrow> bool) \<Rightarrow> nat \<Rightarrow> nat \<Rightarrow> nat \<Rightarrow> 'a list \<Rightarrow> 'a list" where
  "partial_sort lt first middle lst xs = sort_heap lt first middle (heap_select lt first middle lst xs)"

text \<open>
  One round of the loop of \<^verbatim>\<open>introsort_loop\<close> sorts the part from the cut on by a call
  of its own and goes on with the part before the cut, both with the depth limit one
  less.
\<close>

fun introsort_loop :: "('a \<Rightarrow> 'a \<Rightarrow> bool) \<Rightarrow> nat \<Rightarrow> nat \<Rightarrow> nat \<Rightarrow> 'a list \<Rightarrow> 'a list" where
  "introsort_loop lt first lst 0 xs =
     (if lst - first > 16 then partial_sort lt first lst lst xs else xs)"
| "introsort_loop lt first lst (Suc depth_limit) xs =
     (if lst - first > 16
      then introsort_loop lt first (fst (unguarded_partition_pivot lt first lst xs)) depth_limit
             (introsort_loop lt (fst (unguarded_partition_pivot lt first lst xs)) lst depth_limit
                (snd (unguarded_partition_pivot lt first lst xs)))
      else xs)"

definition libstdcxx_sort :: "('a \<Rightarrow> 'a \<Rightarrow> bool) \<Rightarrow> 'a list \<Rightarrow> 'a list" where
  "libstdcxx_sort lt xs =
     (if xs = [] then xs
      else final_insertion_sort lt 0 (length xs)
             (introsort_loop lt 0 (length xs) (lg (length xs) * 2) xs))"

subsection \<open>GameSubtitleBank\<close>

text \<open>
  \<^verbatim>\<open>
  GameSubtitleBank(int lang_id) : m_lang_id(lang_id) {}
  int lang() const { return m_lang_id; }
  bool scene_exists(const std::string& name) const { return m_scenes.find(name) != m_scenes.end(); }
  GameSubtitleSceneInfo& scene_by_name(const std::string& name) { return m_scenes.at(name); }
  void add_scene(GameSubtitleSceneInfo& scene) {
    ASSERT(!scene_exists(scene.name()));
    m_scenes.insert({scene.name(), scene});
  }
  int m_lang_id;
  std::string m_text_version;
  std::string m_file_path;
  std::map<std::string, GameSubtitleSceneInfo> m_scenes;
  \<close>
\<close>

record GameSubtitleBank =
  m_lang_id :: int32
  m_text_version :: string
  m_file_path :: string
  m_scenes :: "string \<rightharpoonup> GameSubtitleSceneInfo"

definition new_GameSubtitleBank :: "int32 \<Rightarrow> GameSubtitleBank" where
  "new_GameSubtitleBank lang_id =
     \<lparr>m_lang_id = lang_id, m_text_version = [], m_file_path = [], m_scenes = Map.empty\<rparr>"

definition GameSubtitleBank_lang :: "GameSubtitleBank \<Rightarrow> int32" where
  "GameSubtitleBank_lang b = GameSubtitleBank.m_lang_id b"

definition scene_exists :: "string \<Rightarrow> GameSubtitleBank \<Rightarrow> bool" where
  "scene_exists n b = (m_scenes b n \<noteq> None)"

definition scene_by_name :: "string \<Rightarrow> GameSubtitleBank \<Rightarrow> error + GameSubtitleSceneInfo" where
  "scene_by_name n b = at (m_scenes b) n"

text \<open>\<^verbatim>\<open>std::map::insert\<close> stores the pair only when the key is new.\<close>

definition map_insert :: "('k \<rightharpoonup> 'v) \<Rightarrow> 'k \<Rightarrow> 'v \<Rightarrow> ('k \<rightharpoonup> 'v)" where
  "map_insert m k v = (case m k of None \<Rightarrow> m(k \<mapsto> v) | Some old \<Rightarrow> m)"

definition GameSubtitleBank_add_scene ::
  "GameSubtitleSceneInfo \<Rightarrow> GameSubtitleBank \<Rightarrow> (error + unit) \<times> GameSubtitleBank" where
  "GameSubtitleBank_add_scene scene b =
     ASSERT (\<not> scene_exists (m_name scene) b) DuplicateKey b
       (Inr (), b\<lparr>m_scenes := map_insert (m_scenes b) (m_name scene) scene\<rparr>)"

subsection \<open>GameSubtitleGroups\<close>

text \<open>
  \<^verbatim>\<open>
  class GameSubtitleGroups {
    std::vector<std::string> m_group_order;
    std::map<std::string, std::vector<std::string>> m_groups;
    std::string find_group(const std::string& scene_name);
    void remove_scene(const std::string& group_name, const std::string& scene_name);
    void add_scene(const std::string& group_name, const std::string& scene_name);
    std::string group_order_key = "_groups";
    std::string uncategorized_group = "uncategorized";
  };
  \<close>
  \<open>m_groups\<close> is a \<open>mapping\<close>, whose keys can be listed in ascending order as a
  loop over a \<^verbatim>\<open>std::map\<close> visits them.
\<close>

record GameSubtitleGroups =
  m_group_order :: "string list"
  m_groups :: "(string, string list) mapping"
  group_order_key :: string
  uncategorized_group :: string

definition new_GameSubtitleGroups :: GameSubtitleGroups where
  "new_GameSubtitleGroups =
     \<lparr>m_group_order = [], m_groups = Mapping.empty,
      group_order_key = ''_groups'', uncategorized_group = ''uncategorized''\<rparr>"

text \<open>The scene list of a group; a group that is not a key of \<open>m_groups\<close> has no scene.\<close>

definition group_scenes :: "string \<Rightarrow> GameSubtitleGroups \<Rightarrow> string list" where
  "group_scenes g G = (case Mapping.lookup (m_groups G) g of None \<Rightarrow> [] | Some scs \<Rightarrow> scs)"

text \<open>
  Modelled from the spec: the body of \<^verbatim>\<open>GameSubtitleGroups::find_group\<close> is not among
  the sources, the header only declares it. The spec: "returns the group name
  containing \<^verbatim>\<open>scene_name\<close>, or the default/fallback group name if the scene is not
  assigned to any group. Never fails." The default group name is the field
  \<^verbatim>\<open>uncategorized_group\<close>; of several groups that hold the scene the first key is
  returned.
\<close>

definition find_group :: "string \<Rightarrow> GameSubtitleGroups \<Rightarrow> string" where
  "find_group scene_name G =
     (case List.find (\<lambda>g. scene_name \<in> set (group_scenes g G)) (Mapping.ordered_keys (m_groups G)) of
        None \<Rightarrow> uncategorized_group G
      | Some g \<Rightarrow> g)"

text \<open>
  Modelled from the spec: the body of \<^verbatim>\<open>GameSubtitleGroups::remove_scene\<close> is not among
  the sources. The spec: "removes \<^verbatim>\<open>scene_name\<close> from the named group's list if
  present; no error if either does not exist (no-op)."
\<close>

definition remove_scene :: "string \<Rightarrow> string \<Rightarrow> GameSubtitleGroups \<Rightarrow> GameSubtitleGroups" where
  "remove_scene group_name scene_name G =
     (case Mapping.lookup (m_groups G) group_name of
        None \<Rightarrow> G
      | Some scs \<Rightarrow> G\<lparr>m_groups := Mapping.update group_name (removeAll scene_name scs) (m_groups G)\<rparr>)"

text \<open>
  Modelled from the spec: the body of \<^verbatim>\<open>GameSubtitleGroups::add_scene\<close> is not among the
  sources. The spec: "ensures \<^verbatim>\<open>group_name\<close> exists in \<^verbatim>\<open>group_order\<close> (appending if
  new) and appends \<^verbatim>\<open>scene_name\<close> to that group's list if not already present".
\<close>

definition GameSubtitleGroups_add_scene :: "string \<Rightarrow> string \<Rightarrow> GameSubtitleGroups \<Rightarrow> GameSubtitleGroups" where
  "GameSubtitleGroups_add_scene group_name scene_name G =
     G\<lparr>m_group_order :=
          (if group_name \<in> set (m_group_order G) then m_group_order G
           else m_group_order G @ [group_name]),
       m_groups :=
          Mapping.update group_name
            (if scene_name \<in> set (group_scenes group_name G) then group_scenes group_name G
             else group_scenes group_name G @ [scene_name])
            (m_groups G)\<rparr>"

subsection \<open>GameSubtitleDB\<close>

text \<open>
  \<^verbatim>\<open>
  bool bank_exists(int id) const { return m_banks.find(id) != m_banks.end(); }
  std::shared_ptr<GameSubtitleBank> add_bank(std::shared_ptr<GameSubtitleBank> bank) {
    ASSERT(!bank_exists(bank->lang()));
    m_banks[bank->lang()] = bank;
    return bank;
  }
  std::shared_ptr<GameSubtitleBank> bank_by_id(int id) {
    if (!bank_exists(id)) {
      return nullptr;
    }
    return m_banks.at(id);
  }
  std::map<int, std::shared_ptr<GameSubtitleBank>> m_banks;
  std::unique_ptr<GameSubtitleGroups> m_subtitle_groups;
  \<close>
  The \<^verbatim>\<open>unique_ptr\<close> owns its object alone: it is the object, or \<open>None\<close> when null.
\<close>

record GameSubtitleDB =
  m_banks :: "int32 \<rightharpoonup> shared_ptr"
  m_subtitle_groups :: "GameSubtitleGroups option"

definition new_GameSubtitleDB :: GameSubtitleDB where
  "new_GameSubtitleDB = \<lparr>m_banks = Map.empty, m_subtitle_groups = None\<rparr>"

definition GameSubtitleDB_bank_exists :: "int32 \<Rightarrow> GameSubtitleDB \<Rightarrow> bool" where
  "GameSubtitleDB_bank_exists i db = (GameSubtitleDB.m_banks db i \<noteq> None)"

definition GameSubtitleDB_add_bank ::
  "GameSubtitleBank heap \<Rightarrow> shared_ptr \<Rightarrow> GameSubtitleDB \<Rightarrow> (error + shared_ptr) \<times> GameSubtitleDB" where
  "GameSubtitleDB_add_bank h bank db =
     (case deref h bank of
        Inl e \<Rightarrow> (Inl e, db)
      | Inr b \<Rightarrow>
          ASSERT (\<not> GameSubtitleDB_bank_exists (GameSubtitleBank_lang b) db) DuplicateKey db
            (Inr bank,
             db\<lparr>GameSubtitleDB.m_banks := (GameSubtitleDB.m_banks db)(GameSubtitleBank_lang b \<mapsto> bank)\<rparr>))"

definition GameSubtitleDB_bank_by_id :: "int32 \<Rightarrow> GameSubtitleDB \<Rightarrow> error + shared_ptr" where
  "GameSubtitleDB_bank_by_id i db =
     (if \<not> GameSubtitleDB_bank_exists i db then Inr nullptr
      else at (GameSubtitleDB.m_banks db) i)"

section \<open>Properties\<close>

subsection \<open>Map access and assertions\<close>

lemma at_None: "m k = None \<Longrightarrow> at m k = Inl NotFound"
  by (simp add: at_def)

lemma at_Some: "m k = Some v \<Longrightarrow> at m k = Inr v"
  by (simp add: at_def)

lemma ASSERT_simps:
  "c \<Longrightarrow> ASSERT c e s k = k"
  "\<not> c \<Longrightarrow> ASSERT c e s k = (Inl e, s)"
  by (simp_all add: ASSERT_def)

subsection \<open>GameTextBank\<close>

lemma line_exists_set_line: "line_exists i (set_line i l b)"
  by (simp add: line_exists_def set_line_def)

lemma line_set_line: "GameTextBank_line i (set_line i l b) = Inr l"
  by (simp add: GameTextBank_line_def at_def set_line_def)

text \<open>
  Claim C5. For every text bank, every id \<open>i\<close> and every two strings \<open>t1\<close> and \<open>t2\<close>:
  \<^verbatim>\<open>set_line\<close> is a total function on banks (it has no error result), and after
  \<^verbatim>\<open>set_line(id, t1)\<close> followed by \<^verbatim>\<open>set_line(id, t2)\<close> the line exists and \<^verbatim>\<open>line(id)\<close>
  returns \<open>t2\<close>: the second call overwrites the first. The two calls leave the same
  bank as the second call alone, and the language of the bank is as it was.
\<close>

theorem set_line_upsert:
  "line_exists i (set_line i t2 (set_line i t1 b))
   \<and> GameTextBank_line i (set_line i t2 (set_line i t1 b)) = Inr t2
   \<and> set_line i t2 (set_line i t1 b) = set_line i t2 b
   \<and> GameTextBank_lang (set_line i t2 (set_line i t1 b)) = GameTextBank_lang b"
  by (simp add: line_exists_def GameTextBank_line_def at_def set_line_def GameTextBank_lang_def)

subsection \<open>Adding under a key that is taken\<close>

lemma scene_exists_after_add_scene:
  "scene_exists (m_name scene) (snd (GameSubtitleBank_add_scene scene b))"
  by (simp add: GameSubtitleBank_add_scene_def ASSERT_def scene_exists_def map_insert_def)

lemma GameSubtitleDB_bank_exists_after_add_bank:
  "deref h bank = Inr b \<Longrightarrow>
   GameSubtitleDB_bank_exists (GameSubtitleBank_lang b) (snd (GameSubtitleDB_add_bank h bank db))"
  by (simp add: GameSubtitleDB_add_bank_def ASSERT_def GameSubtitleDB_bank_exists_def)

lemma GameTextDB_bank_exists_after_add_bank:
  "deref h bank = Inr b \<Longrightarrow>
   GameTextDB_bank_exists grp (GameTextBank_lang b) (snd (GameTextDB_add_bank h grp bank db))"
  by (auto simp add: GameTextDB_add_bank_def ASSERT_def GameTextDB_bank_exists_def split: option.splits)

text \<open>
  Claim C2. A second \<^verbatim>\<open>GameSubtitleBank::add_scene\<close> with a scene of the same name, a
  second \<^verbatim>\<open>GameSubtitleDB::add_bank\<close> with a bank of the same language, and a second
  \<^verbatim>\<open>GameTextDB::add_bank\<close> with the same group and a bank of the same language, each
  fails with DuplicateKey, and the container after the failed call is the container
  after the first call. The first call may itself have succeeded or failed, and the
  second scene or bank may differ from the first in everything but the key.
\<close>

theorem second_add_fails:
  "(m_name scene2 = m_name scene1 \<longrightarrow>
      GameSubtitleBank_add_scene scene2 (snd (GameSubtitleBank_add_scene scene1 sb))
        = (Inl DuplicateKey, snd (GameSubtitleBank_add_scene scene1 sb)))
   \<and> (deref sh sp1 = Inr sb1 \<and> deref sh sp2 = Inr sb2
        \<and> GameSubtitleBank_lang sb2 = GameSubtitleBank_lang sb1 \<longrightarrow>
      GameSubtitleDB_add_bank sh sp2 (snd (GameSubtitleDB_add_bank sh sp1 sdb))
        = (Inl DuplicateKey, snd (GameSubtitleDB_add_bank sh sp1 sdb)))
   \<and> (deref th tp1 = Inr tb1 \<and> deref th tp2 = Inr tb2
        \<and> GameTextBank_lang tb2 = GameTextBank_lang tb1 \<longrightarrow>
      GameTextDB_add_bank th grp tp2 (snd (GameTextDB_add_bank th grp tp1 tdb))
        = (Inl DuplicateKey, snd (GameTextDB_add_bank th grp tp1 tdb)))"
proof (intro conjI impI)
  assume "m_name scene2 = m_name scene1"
  then have "scene_exists (m_name scene2) (snd (GameSubtitleBank_add_scene scene1 sb))"
    using scene_exists_after_add_scene [of scene1 sb] by simp
  then show "GameSubtitleBank_add_scene scene2 (snd (GameSubtitleBank_add_scene scene1 sb))
        = (Inl DuplicateKey, snd (GameSubtitleBank_add_scene scene1 sb))"
    by (simp add: GameSubtitleBank_add_scene_def [of scene2] ASSERT_simps)
next
  assume a: "deref sh sp1 = Inr sb1 \<and> deref sh sp2 = Inr sb2
        \<and> GameSubtitleBank_lang sb2 = GameSubtitleBank_lang sb1"
  then have "GameSubtitleDB_bank_exists (GameSubtitleBank_lang sb2) (snd (GameSubtitleDB_add_bank sh sp1 sdb))"
    using GameSubtitleDB_bank_exists_after_add_bank [of sh sp1 sb1 sdb] by simp
  with a show "GameSubtitleDB_add_bank sh sp2 (snd (GameSubtitleDB_add_bank sh sp1 sdb))
        = (Inl DuplicateKey, snd (GameSubtitleDB_add_bank sh sp1 sdb))"
    by (simp add: GameSubtitleDB_add_bank_def [of sh sp2] ASSERT_simps)
next
  assume a: "deref th tp1 = Inr tb1 \<and> deref th tp2 = Inr tb2
        \<and> GameTextBank_lang tb2 = GameTextBank_lang tb1"
  then have "GameTextDB_bank_exists grp (GameTextBank_lang tb2) (snd (GameTextDB_add_bank th grp tp1 tdb))"
    using GameTextDB_bank_exists_after_add_bank [of th tp1 tb1 grp tdb] by simp
  with a show "GameTextDB_add_bank th grp tp2 (snd (GameTextDB_add_bank th grp tp1 tdb))
        = (Inl DuplicateKey, snd (GameTextDB_add_bank th grp tp1 tdb))"
    by (simp add: GameTextDB_add_bank_def [of th grp tp2] ASSERT_simps)
qed

text \<open>
  The theorem at work: a second scene named "intro" of another kind; two bank objects
  of language 5 behind two pointers; and the text bank of language 0 with line 5 set,
  then an empty bank of language 0 for the same group "main".
\<close>

theorem second_add_fails_witness:
  "m_name (set_name ''intro'' (new_GameSubtitleSceneInfo Hint))
     = m_name (set_name ''intro'' (new_GameSubtitleSceneInfo Movie))
   \<and> GameSubtitleBank_add_scene (set_name ''intro'' (new_GameSubtitleSceneInfo Hint))
        (snd (GameSubtitleBank_add_scene (set_name ''intro'' (new_GameSubtitleSceneInfo Movie))
               (new_GameSubtitleBank 0)))
       = (Inl DuplicateKey,
          snd (GameSubtitleBank_add_scene (set_name ''intro'' (new_GameSubtitleSceneInfo Movie))
                (new_GameSubtitleBank 0)))
   \<and> deref [0 \<mapsto> new_GameSubtitleBank 5, 1 \<mapsto> new_GameSubtitleBank 5] (Ptr 0) = Inr (new_GameSubtitleBank 5)
   \<and> deref [0 \<mapsto> new_GameSubtitleBank 5, 1 \<mapsto> new_GameSubtitleBank 5] (Ptr 1) = Inr (new_GameSubtitleBank 5)
   \<and> GameSubtitleDB_add_bank [0 \<mapsto> new_GameSubtitleBank 5, 1 \<mapsto> new_GameSubtitleBank 5] (Ptr 1)
        (snd (GameSubtitleDB_add_bank [0 \<mapsto> new_GameSubtitleBank 5, 1 \<mapsto> new_GameSubtitleBank 5] (Ptr 0)
               new_GameSubtitleDB))
       = (Inl DuplicateKey,
          snd (GameSubtitleDB_add_bank [0 \<mapsto> new_GameSubtitleBank 5, 1 \<mapsto> new_GameSubtitleBank 5] (Ptr 0)
                new_GameSubtitleDB))
   \<and> deref [0 \<mapsto> set_line 5 ''Hello'' (new_GameTextBank 0), 1 \<mapsto> new_GameTextBank 0] (Ptr 0)
       = Inr (set_line 5 ''Hello'' (new_GameTextBank 0))
   \<and> deref [0 \<mapsto> set_line 5 ''Hello'' (new_GameTextBank 0), 1 \<mapsto> new_GameTextBank 0] (Ptr 1)
       = Inr (new_GameTextBank 0)
   \<and> GameTextBank_lang (new_GameTextBank 0) = GameTextBank_lang (set_line 5 ''Hello'' (new_GameTextBank 0))
   \<and> GameTextDB_add_bank [0 \<mapsto> set_line 5 ''Hello'' (new_GameTextBank 0), 1 \<mapsto> new_GameTextBank 0] ''main'' (Ptr 1)
        (snd (GameTextDB_add_bank [0 \<mapsto> set_line 5 ''Hello'' (new_GameTextBank 0), 1 \<mapsto> new_GameTextBank 0]
               ''main'' (Ptr 0) new_GameTextDB))
       = (Inl DuplicateKey,
          snd (GameTextDB_add_bank [0 \<mapsto> set_line 5 ''Hello'' (new_GameTextBank 0), 1 \<mapsto> new_GameTextBank 0]
                ''main'' (Ptr 0) new_GameTextDB))"
proof -
  let ?s1 = "set_name ''intro'' (new_GameSubtitleSceneInfo Movie)"
  let ?s2 = "set_name ''intro'' (new_GameSubtitleSceneInfo Hint)"
  let ?sh = "[0 \<mapsto> new_GameSubtitleBank 5, 1 \<mapsto> new_GameSubtitleBank 5]"
  let ?tb = "set_line 5 ''Hello'' (new_GameTextBank 0)"
  let ?th = "[0 \<mapsto> ?tb, 1 \<mapsto> new_GameTextBank 0]"
  have n: "m_name ?s2 = m_name ?s1"
    by (simp add: set_name_def)
  have s: "deref ?sh (Ptr 0) = Inr (new_GameSubtitleBank 5)
           \<and> deref ?sh (Ptr 1) = Inr (new_GameSubtitleBank 5)
           \<and> GameSubtitleBank_lang (new_GameSubtitleBank 5) = GameSubtitleBank_lang (new_GameSubtitleBank 5)"
    by (simp add: deref_def)
  have t: "deref ?th (Ptr 0) = Inr ?tb \<and> deref ?th (Ptr 1) = Inr (new_GameTextBank 0)
           \<and> GameTextBank_lang (new_GameTextBank 0) = GameTextBank_lang ?tb"
    by (simp add: deref_def GameTextBank_lang_def set_line_def)
  note inst = second_add_fails [of ?s2 ?s1 "new_GameSubtitleBank 0"
      ?sh "Ptr 0" "new_GameSubtitleBank 5" "Ptr 1" "new_GameSubtitleBank 5" new_GameSubtitleDB
      ?th "Ptr 0" ?tb "Ptr 1" "new_GameTextBank 0" "''main''" new_GameTextDB]
  from n s t inst show ?thesis
    by blast
qed

subsection \<open>Lookups\<close>

lemma GameTextDB_bank_by_id_cases:
  "GameTextDB_bank_by_id grp i db =
     (case GameTextDB.m_banks db grp of
        None \<Rightarrow> Inr nullptr
      | Some bs \<Rightarrow> (case bs i of None \<Rightarrow> Inr nullptr | Some p \<Rightarrow> Inr p))"
  by (simp add: GameTextDB_bank_by_id_def GameTextDB_bank_exists_def at_def split: option.splits)

lemma GameSubtitleDB_bank_by_id_cases:
  "GameSubtitleDB_bank_by_id i db =
     (case GameSubtitleDB.m_banks db i of None \<Rightarrow> Inr nullptr | Some p \<Rightarrow> Inr p)"
  by (simp add: GameSubtitleDB_bank_by_id_def GameSubtitleDB_bank_exists_def at_def split: option.splits)

text \<open>
  Claim C3. \<^verbatim>\<open>GameTextDB::bank_by_id\<close> and \<^verbatim>\<open>GameSubtitleDB::bank_by_id\<close> never fail:
  the two \<^verbatim>\<open>at\<close> calls in them never throw, whatever the key. On a key for which
  \<^verbatim>\<open>bank_exists\<close> is false they return \<^verbatim>\<open>nullptr\<close>. \<^verbatim>\<open>GameTextBank::line\<close> on an id
  with no line and \<^verbatim>\<open>GameSubtitleBank::scene_by_name\<close> on a name with no scene fail
  with NotFound.
\<close>

theorem lookups_on_missing_keys:
  "(\<exists>p. GameTextDB_bank_by_id grp i tdb = Inr p)
   \<and> (\<exists>p. GameSubtitleDB_bank_by_id j sdb = Inr p)
   \<and> (\<not> GameTextDB_bank_exists grp i tdb \<longrightarrow> GameTextDB_bank_by_id grp i tdb = Inr nullptr)
   \<and> (\<not> GameSubtitleDB_bank_exists j sdb \<longrightarrow> GameSubtitleDB_bank_by_id j sdb = Inr nullptr)
   \<and> (\<not> line_exists k tb \<longrightarrow> GameTextBank_line k tb = Inl NotFound)
   \<and> (\<not> scene_exists n sb \<longrightarrow> scene_by_name n sb = Inl NotFound)"
proof (intro conjI impI)
  show "\<exists>p. GameTextDB_bank_by_id grp i tdb = Inr p"
    by (simp add: GameTextDB_bank_by_id_cases split: option.splits)
  show "\<exists>p. GameSubtitleDB_bank_by_id j sdb = Inr p"
    by (simp add: GameSubtitleDB_bank_by_id_cases split: option.splits)
  show "GameTextDB_bank_by_id grp i tdb = Inr nullptr" if "\<not> GameTextDB_bank_exists grp i tdb"
    using that by (simp add: GameTextDB_bank_by_id_def)
  show "GameSubtitleDB_bank_by_id j sdb = Inr nullptr" if "\<not> GameSubtitleDB_bank_exists j sdb"
    using that by (simp add: GameSubtitleDB_bank_by_id_def)
  show "GameTextBank_line k tb = Inl NotFound" if "\<not> line_exists k tb"
    using that by (simp add: line_exists_def GameTextBank_line_def at_None)
  show "scene_by_name n sb = Inl NotFound" if "\<not> scene_exists n sb"
    using that by (simp add: scene_exists_def scene_by_name_def at_None)
qed

text \<open>
  The theorem at work: language 1 of group "main" when only language 0 was added,
  language 3 of an empty subtitle database, line 6 of a bank that has line 5 only,
  and scene "intro" of an empty subtitle bank.
\<close>

theorem lookups_on_missing_keys_witness:
  "\<not> GameTextDB_bank_exists ''main'' 1 (snd (GameTextDB_add_bank [0 \<mapsto> new_GameTextBank 0] ''main'' (Ptr 0) new_GameTextDB))
   \<and> GameTextDB_bank_by_id ''main'' 1 (snd (GameTextDB_add_bank [0 \<mapsto> new_GameTextBank 0] ''main'' (Ptr 0) new_GameTextDB)) = Inr nullptr
   \<and> \<not> GameSubtitleDB_bank_exists 3 new_GameSubtitleDB
   \<and> GameSubtitleDB_bank_by_id 3 new_GameSubtitleDB = Inr nullptr
   \<and> \<not> line_exists 6 (set_line 5 ''Hello'' (new_GameTextBank 0))
   \<and> GameTextBank_line 6 (set_line 5 ''Hello'' (new_GameTextBank 0)) = Inl NotFound
   \<and> \<not> scene_exists ''intro'' (new_GameSubtitleBank 0)
   \<and> scene_by_name ''intro'' (new_GameSubtitleBank 0) = Inl NotFound"
proof -
  have h1: "\<not> GameTextDB_bank_exists ''main'' 1 (snd (GameTextDB_add_bank [0 \<mapsto> new_GameTextBank 0] ''main'' (Ptr 0) new_GameTextDB))"
    by (simp add: GameTextDB_bank_exists_def GameTextDB_add_bank_def deref_def ASSERT_def
        new_GameTextDB_def new_GameTextBank_def GameTextBank_lang_def subscript_def)
  have h2: "\<not> GameSubtitleDB_bank_exists 3 new_GameSubtitleDB"
    by (simp add: GameSubtitleDB_bank_exists_def new_GameSubtitleDB_def)
  have h3: "\<not> line_exists 6 (set_line 5 ''Hello'' (new_GameTextBank 0))"
    by (simp add: line_exists_def set_line_def new_GameTextBank_def)
  have h4: "\<not> scene_exists ''intro'' (new_GameSubtitleBank 0)"
    by (simp add: scene_exists_def new_GameSubtitleBank_def)
  show ?thesis
    using h1 h2 h3 h4
      lookups_on_missing_keys [of "''main''" 1
        "snd (GameTextDB_add_bank [0 \<mapsto> new_GameTextBank 0] ''main'' (Ptr 0) new_GameTextDB)"
        3 new_GameSubtitleDB 6 "set_line 5 ''Hello'' (new_GameTextBank 0)"
        "''intro''" "new_GameSubtitleBank 0"]
    by blast
qed

text \<open>
  Claim C10. \<^verbatim>\<open>GameTextDB::banks(group)\<close> fails (NotFound, the \<^verbatim>\<open>std::out_of_range\<close> of
  \<^verbatim>\<open>m_banks.at(group)\<close>) when the group is not a key of the database, where
  \<^verbatim>\<open>bank_by_id\<close> returns \<^verbatim>\<open>nullptr\<close> and \<^verbatim>\<open>bank_exists\<close> false. It returns the group's
  banks when the group is among \<^verbatim>\<open>groups()\<close>, and so whenever \<^verbatim>\<open>bank_exists\<close> holds for
  some language of the group.
\<close>

theorem banks_requires_group:
  "(grp \<notin> dom (groups db) \<longrightarrow>
      GameTextDB_banks grp db = Inl NotFound \<and> GameTextDB_bank_by_id grp i db = Inr nullptr
      \<and> \<not> GameTextDB_bank_exists grp i db)
   \<and> (grp \<in> dom (groups db) \<longrightarrow> (\<exists>bs. GameTextDB_banks grp db = Inr bs \<and> groups db grp = Some bs))
   \<and> (GameTextDB_bank_exists grp i db \<longrightarrow> (\<exists>bs. GameTextDB_banks grp db = Inr bs))"
  by (auto simp add: groups_def GameTextDB_banks_def at_def GameTextDB_bank_by_id_cases
      GameTextDB_bank_exists_def split: option.splits)

text \<open>
  The theorem at work on the database that holds language 0 of group "main": the
  group "menu" is missing, the group "main" is there.
\<close>

theorem banks_requires_group_witness:
  "''menu'' \<notin> dom (groups (snd (GameTextDB_add_bank [0 \<mapsto> new_GameTextBank 0] ''main'' (Ptr 0) new_GameTextDB)))
   \<and> GameTextDB_banks ''menu'' (snd (GameTextDB_add_bank [0 \<mapsto> new_GameTextBank 0] ''main'' (Ptr 0) new_GameTextDB)) = Inl NotFound
   \<and> GameTextDB_bank_by_id ''menu'' 0 (snd (GameTextDB_add_bank [0 \<mapsto> new_GameTextBank 0] ''main'' (Ptr 0) new_GameTextDB)) = Inr nullptr
   \<and> ''main'' \<in> dom (groups (snd (GameTextDB_add_bank [0 \<mapsto> new_GameTextBank 0] ''main'' (Ptr 0) new_GameTextDB)))
   \<and> GameTextDB_bank_exists ''main'' 0 (snd (GameTextDB_add_bank [0 \<mapsto> new_GameTextBank 0] ''main'' (Ptr 0) new_GameTextDB))
   \<and> GameTextDB_banks ''main'' (snd (GameTextDB_add_bank [0 \<mapsto> new_GameTextBank 0] ''main'' (Ptr 0) new_GameTextDB)) = Inr [0 \<mapsto> Ptr 0]"
proof -
  let ?db = "snd (GameTextDB_add_bank [0 \<mapsto> new_GameTextBank 0] ''main'' (Ptr 0) new_GameTextDB)"
  have db: "?db = \<lparr>GameTextDB.m_banks = [''main'' \<mapsto> [0 \<mapsto> Ptr 0]]\<rparr>"
    by (simp add: GameTextDB_add_bank_def deref_def ASSERT_def GameTextDB_bank_exists_def
        new_GameTextDB_def new_GameTextBank_def GameTextBank_lang_def subscript_def)
  have h1: "''menu'' \<notin> dom (groups ?db)"
    unfolding db by (simp add: groups_def)
  have h2: "''main'' \<in> dom (groups ?db)"
    unfolding db by (simp add: groups_def)
  have h3: "GameTextDB_bank_exists ''main'' 0 ?db"
    unfolding db by (simp add: GameTextDB_bank_exists_def)
  have g: "groups ?db ''main'' = Some [0 \<mapsto> Ptr 0]"
    unfolding db by (simp add: groups_def)
  show ?thesis
    using h1 h2 h3 g banks_requires_group [of "''menu''" ?db 0] banks_requires_group [of "''main''" ?db 0]
    by auto
qed

subsection \<open>GameTextDB::add_bank\<close>

lemma GameTextDB_add_bank_new:
  assumes "deref h bank = Inr b" and "\<not> GameTextDB_bank_exists grp (GameTextBank_lang b) db"
  shows "GameTextDB_add_bank h grp bank db =
           (Inr bank, db\<lparr>GameTextDB.m_banks := (GameTextDB.m_banks db)
              (grp \<mapsto> (subscript (GameTextDB.m_banks db) grp)(GameTextBank_lang b \<mapsto> bank))\<rparr>)"
  using assms by (simp add: GameTextDB_add_bank_def ASSERT_simps)

text \<open>
  Claim C4. When \<^verbatim>\<open>bank\<close> points to a bank \<open>b\<close> and the database has no bank for the
  group and the language of \<open>b\<close>, \<^verbatim>\<open>add_bank(group, bank)\<close> returns the pointer it was
  given and stores it: afterwards \<^verbatim>\<open>bank_exists\<close> holds and \<^verbatim>\<open>bank_by_id\<close> returns that
  same pointer for the language of \<open>b\<close>, \<^verbatim>\<open>bank_by_id\<close> returns \<^verbatim>\<open>nullptr\<close> for every other
  language of the group that had no bank before, and \<^verbatim>\<open>bank_by_id\<close> is unchanged for
  every other pair of group and language.
\<close>

theorem add_bank_then_bank_by_id:
  assumes "deref h bank = Inr b"
    and "\<not> GameTextDB_bank_exists grp (GameTextBank_lang b) db"
  shows "fst (GameTextDB_add_bank h grp bank db) = Inr bank
    \<and> GameTextDB_bank_exists grp (GameTextBank_lang b) (snd (GameTextDB_add_bank h grp bank db))
    \<and> GameTextDB_bank_by_id grp (GameTextBank_lang b) (snd (GameTextDB_add_bank h grp bank db)) = Inr bank
    \<and> (\<forall>i. i \<noteq> GameTextBank_lang b \<and> \<not> GameTextDB_bank_exists grp i db \<longrightarrow>
          GameTextDB_bank_by_id grp i (snd (GameTextDB_add_bank h grp bank db)) = Inr nullptr)
    \<and> (\<forall>g i. (g, i) \<noteq> (grp, GameTextBank_lang b) \<longrightarrow>
          GameTextDB_bank_by_id g i (snd (GameTextDB_add_bank h grp bank db)) = GameTextDB_bank_by_id g i db)"
proof -
  note new = GameTextDB_add_bank_new [OF assms]
  have other: "GameTextDB_bank_by_id g i (snd (GameTextDB_add_bank h grp bank db)) = GameTextDB_bank_by_id g i db"
    if "(g, i) \<noteq> (grp, GameTextBank_lang b)" for g i
    using that by (auto simp add: new GameTextDB_bank_by_id_cases subscript_def split: option.splits)
  have absent: "GameTextDB_bank_by_id grp i (snd (GameTextDB_add_bank h grp bank db)) = Inr nullptr"
    if "i \<noteq> GameTextBank_lang b \<and> \<not> GameTextDB_bank_exists grp i db" for i
    using that
    by (auto simp add: new GameTextDB_bank_by_id_cases GameTextDB_bank_exists_def subscript_def
        split: option.splits)
  have "fst (GameTextDB_add_bank h grp bank db) = Inr bank"
    by (simp add: new)
  moreover have "GameTextDB_bank_exists grp (GameTextBank_lang b) (snd (GameTextDB_add_bank h grp bank db))"
    by (simp add: new GameTextDB_bank_exists_def)
  moreover have "GameTextDB_bank_by_id grp (GameTextBank_lang b) (snd (GameTextDB_add_bank h grp bank db)) = Inr bank"
    by (simp add: new GameTextDB_bank_by_id_cases)
  ultimately show ?thesis
    using other absent by blast
qed

text \<open>
  The scenario of the spec: the bank of language 0 with line 5 set to "Hello" goes
  into group "main" of an empty database; language 0 is then found behind the same
  pointer and language 1 is absent.
\<close>

theorem add_bank_then_bank_by_id_witness:
  "deref [7 \<mapsto> set_line 5 ''Hello'' (new_GameTextBank 0)] (Ptr 7) = Inr (set_line 5 ''Hello'' (new_GameTextBank 0))
   \<and> \<not> GameTextDB_bank_exists ''main'' (GameTextBank_lang (set_line 5 ''Hello'' (new_GameTextBank 0))) new_GameTextDB
   \<and> GameTextBank_lang (set_line 5 ''Hello'' (new_GameTextBank 0)) = 0
   \<and> fst (GameTextDB_add_bank [7 \<mapsto> set_line 5 ''Hello'' (new_GameTextBank 0)] ''main'' (Ptr 7) new_GameTextDB) = Inr (Ptr 7)
   \<and> GameTextDB_bank_by_id ''main'' 0
        (snd (GameTextDB_add_bank [7 \<mapsto> set_line 5 ''Hello'' (new_GameTextBank 0)] ''main'' (Ptr 7) new_GameTextDB)) = Inr (Ptr 7)
   \<and> GameTextDB_bank_by_id ''main'' 1
        (snd (GameTextDB_add_bank [7 \<mapsto> set_line 5 ''Hello'' (new_GameTextBank 0)] ''main'' (Ptr 7) new_GameTextDB)) = Inr nullptr"
proof -
  let ?b = "set_line 5 ''Hello'' (new_GameTextBank 0)"
  have h1: "deref [7 \<mapsto> ?b] (Ptr 7) = Inr ?b"
    by (simp add: deref_def)
  have l: "GameTextBank_lang ?b = 0"
    by (simp add: GameTextBank_lang_def set_line_def new_GameTextBank_def)
  have h2: "\<not> GameTextDB_bank_exists ''main'' (GameTextBank_lang ?b) new_GameTextDB"
    by (simp add: GameTextDB_bank_exists_def new_GameTextDB_def)
  have h3: "(1 :: int32) \<noteq> GameTextBank_lang ?b \<and> \<not> GameTextDB_bank_exists ''main'' 1 new_GameTextDB"
    by (simp add: l GameTextDB_bank_exists_def new_GameTextDB_def)
  note t = add_bank_then_bank_by_id [OF h1 h2]
  let ?db = "snd (GameTextDB_add_bank [7 \<mapsto> ?b] ''main'' (Ptr 7) new_GameTextDB)"
  from t have a: "fst (GameTextDB_add_bank [7 \<mapsto> ?b] ''main'' (Ptr 7) new_GameTextDB) = Inr (Ptr 7)"
    by blast
  from t have "GameTextDB_bank_by_id ''main'' (GameTextBank_lang ?b) ?db = Inr (Ptr 7)"
    by blast
  then have b: "GameTextDB_bank_by_id ''main'' 0 ?db = Inr (Ptr 7)"
    by (simp only: l)
  from t h3 have c: "GameTextDB_bank_by_id ''main'' 1 ?db = Inr nullptr"
    by blast
  from h1 h2 l a b c show ?thesis
    by blast
qed

subsection \<open>GameSubtitleSceneInfo\<close>

text \<open>
  Claim C9. For any two scenes \<open>a\<close> and \<open>b\<close>, \<^verbatim>\<open>a.from_other_scene(b)\<close> gives \<open>a\<close> the
  name, lines, kind and id of \<open>b\<close> and leaves \<open>m_sorting_group\<close> and
  \<open>m_sorting_group_idx\<close> of \<open>a\<close> as they were: nothing else of \<open>a\<close> is kept.
\<close>

theorem from_other_scene_frame:
  "m_name (from_other_scene b a) = m_name b
   \<and> m_lines (from_other_scene b a) = m_lines b
   \<and> m_kind (from_other_scene b a) = m_kind b
   \<and> m_id (from_other_scene b a) = m_id b
   \<and> m_sorting_group (from_other_scene b a) = m_sorting_group a
   \<and> m_sorting_group_idx (from_other_scene b a) = m_sorting_group_idx a
   \<and> from_other_scene b a
       = b\<lparr>m_sorting_group := m_sorting_group a, m_sorting_group_idx := m_sorting_group_idx a\<rparr>"
  by (simp add: from_other_scene_def)

subsection \<open>Sorting the lines of a scene\<close>

lemma std_sort_contract_mset: "std_sort_contract srt \<Longrightarrow> mset (srt xs) = mset xs"
  by (simp add: std_sort_contract_def)

lemma not_less_sorted:
  "sorted_wrt (\<lambda>a b. \<not> SubtitleLine_less b a) xs = sorted (map (\<lambda>l. sint (frame l)) xs)"
  by (simp add: sorted_map SubtitleLine_less_def not_less)

lemma std_sort_contract_sorted:
  "std_sort_contract srt \<Longrightarrow> sorted (map (\<lambda>l. sint (frame l)) (srt xs))"
  by (simp add: std_sort_contract_def flip: not_less_sorted)

lemma std_sort_contract_stable_sort: "std_sort_contract stable_sort"
  by (simp add: std_sort_contract_def not_less_sorted stable_sort_def)

lemma std_sort_contract_reversing_sort: "std_sort_contract reversing_sort"
  by (simp add: std_sort_contract_def not_less_sorted reversing_sort_def)

text \<open>Lines of pairwise different frames have one sorted arrangement only.\<close>

lemma sorted_distinct_frames_unique:
  assumes "sorted (map (\<lambda>l. sint (frame l)) ys)" and "mset ys = mset xs"
    and "distinct (map (\<lambda>l. sint (frame l)) xs)"
  shows "ys = sort_key (\<lambda>l. sint (frame l)) xs"
proof (rule map_sorted_distinct_set_unique [where f = "\<lambda>l. sint (frame l)"])
  have s: "set ys = set xs"
    using assms(2) by (rule mset_eq_setD)
  show "inj_on (\<lambda>l. sint (frame l)) (set ys \<union> set (sort_key (\<lambda>l. sint (frame l)) xs))"
    using assms(3) by (simp add: s distinct_map)
  show "sorted (map (\<lambda>l. sint (frame l)) ys)"
    by (rule assms(1))
  have "mset (map (\<lambda>l. sint (frame l)) ys) = mset (map (\<lambda>l. sint (frame l)) xs)"
    using assms(2) by (metis mset_map)
  then show "distinct (map (\<lambda>l. sint (frame l)) ys)"
    using assms(3) by (metis mset_eq_imp_distinct_iff)
  show "sorted (map (\<lambda>l. sint (frame l)) (sort_key (\<lambda>l. sint (frame l)) xs))"
    by simp
  show "distinct (map (\<lambda>l. sint (frame l)) (sort_key (\<lambda>l. sint (frame l)) xs))"
    using assms(3) by (simp add: distinct_map)
  show "set ys = set (sort_key (\<lambda>l. sint (frame l)) xs)"
    by (simp add: s)
qed

lemma std_sort_distinct_frames:
  assumes "std_sort_contract srt" and "distinct (map (\<lambda>l. sint (frame l)) xs)"
  shows "srt xs = sort_key (\<lambda>l. sint (frame l)) xs"
  using std_sort_contract_sorted [OF assms(1)] std_sort_contract_mset [OF assms(1)] assms(2)
  by (rule sorted_distinct_frames_unique)

lemma run_call_lines:
  "m_lines (run_call srt c sc) = srt (m_lines sc @ [call_line c])"
  by (cases c) (simp_all add: add_line_def add_clear_entry_def)

lemma mset_run_calls:
  "std_sort_contract srt \<Longrightarrow>
   mset (m_lines (run_calls srt cs sc)) = mset (m_lines sc) + mset (map call_line cs)"
  by (induction cs arbitrary: sc) (simp_all add: run_call_lines std_sort_contract_mset)

lemma sorted_run_calls:
  "std_sort_contract srt \<Longrightarrow> sorted (map (\<lambda>l. sint (frame l)) (m_lines sc)) \<Longrightarrow>
   sorted (map (\<lambda>l. sint (frame l)) (m_lines (run_calls srt cs sc)))"
  by (induction cs arbitrary: sc) (simp_all add: run_call_lines std_sort_contract_sorted)

text \<open>
  With a sort that keeps equal elements in order (the behaviour of
  \<^verbatim>\<open>std::stable_sort\<close>) the lines are the inserted lines, stably sorted by frame.
\<close>

lemma sort_key_sort_key_append:
  "sort_key f (sort_key f xs @ ys) = sort_key f (xs @ ys)"
proof (rule properties_for_sort_key [symmetric])
  show "mset (sort_key f (sort_key f xs @ ys)) = mset (xs @ ys)"
    by simp
  show "sorted (map f (sort_key f (sort_key f xs @ ys)))"
    by simp
  fix k
  have "filter (\<lambda>y. f y = f k) (sort_key f (sort_key f xs @ ys)) = filter (\<lambda>y. f y = f k) (xs @ ys)"
    by (simp add: sort_key_stable)
  then show "filter (\<lambda>y. f k = f y) (sort_key f (sort_key f xs @ ys)) = filter (\<lambda>y. f k = f y) (xs @ ys)"
    by (simp add: eq_commute [of "f k"])
qed

lemma run_calls_stable_sort:
  "cs \<noteq> [] \<Longrightarrow>
   m_lines (run_calls stable_sort cs sc) = sort_key (\<lambda>l. sint (frame l)) (m_lines sc @ map call_line cs)"
proof (induction cs arbitrary: sc)
  case Nil
  then show ?case by simp
next
  case (Cons c cs)
  show ?case
  proof (cases "cs = []")
    case True
    then show ?thesis by (simp add: run_call_lines stable_sort_def)
  next
    case False
    then have "m_lines (run_calls stable_sort (c # cs) sc)
            = sort_key (\<lambda>l. sint (frame l)) (m_lines (run_call stable_sort c sc) @ map call_line cs)"
      using Cons.IH [of "run_call stable_sort c sc"] by simp
    also have "\<dots> = sort_key (\<lambda>l. sint (frame l)) (m_lines sc @ map call_line (c # cs))"
      by (simp add: run_call_lines stable_sort_def sort_key_sort_key_append)
    finally show ?thesis .
  qed
qed

lemma lines_stable_under_stable_sort:
  "m_lines (run_calls stable_sort cs (new_GameSubtitleSceneInfo k))
     = sort_key (\<lambda>l. sint (frame l)) (map call_line cs)"
  by (cases "cs = []") (simp_all add: run_calls_stable_sort, simp_all add: new_GameSubtitleSceneInfo_def)

lemma sorted_run_calls_nonempty:
  assumes "std_sort_contract srt" and "cs \<noteq> []"
  shows "sorted (map (\<lambda>l. sint (frame l)) (m_lines (run_calls srt cs sc)))"
proof -
  from assms(2) obtain c cs' where cs: "cs = c # cs'"
    by (cases cs) auto
  have "sorted (map (\<lambda>l. sint (frame l)) (m_lines (run_call srt c sc)))"
    using assms(1) by (simp add: run_call_lines std_sort_contract_sorted)
  with assms(1) have "sorted (map (\<lambda>l. sint (frame l)) (m_lines (run_calls srt cs' (run_call srt c sc))))"
    by (rule sorted_run_calls)
  then show ?thesis
    by (simp add: cs)
qed

text \<open>
  Claim C1, as the code has it. Whatever \<^verbatim>\<open>std::sort\<close> does within its contract, a
  sequence of \<^verbatim>\<open>add_line\<close> and \<^verbatim>\<open>add_clear_entry\<close> calls on any scene leaves the lines
  non-decreasing in frame, as soon as there is one call or when the lines were
  non-decreasing before (as they are on a new scene). The lines are then the lines of
  before and the lines the calls appended, each as often as it was there or was
  appended. When no two of them have the same frame their order is the one order by
  frame. The order of two lines of equal frame is not fixed by the code: it is what
  \<^verbatim>\<open>std::sort\<close> leaves.
\<close>

theorem lines_sorted_permutation:
  assumes "std_sort_contract srt"
  shows "(cs \<noteq> [] \<or> sorted (map (\<lambda>l. sint (frame l)) (m_lines sc)) \<longrightarrow>
            sorted (map (\<lambda>l. sint (frame l)) (m_lines (run_calls srt cs sc))))
    \<and> mset (m_lines (run_calls srt cs sc)) = mset (m_lines sc) + mset (map call_line cs)
    \<and> ((cs \<noteq> [] \<or> sorted (map (\<lambda>l. sint (frame l)) (m_lines sc)))
          \<and> distinct (map (\<lambda>l. sint (frame l)) (m_lines sc @ map call_line cs)) \<longrightarrow>
         m_lines (run_calls srt cs sc)
           = sort_key (\<lambda>l. sint (frame l)) (m_lines sc @ map call_line cs))"
proof -
  let ?ls = "m_lines (run_calls srt cs sc)"
  have s: "sorted (map (\<lambda>l. sint (frame l)) ?ls)"
    if "cs \<noteq> [] \<or> sorted (map (\<lambda>l. sint (frame l)) (m_lines sc))"
    using that sorted_run_calls_nonempty [OF assms, of cs sc] sorted_run_calls [OF assms, of sc cs]
    by blast
  have m: "mset ?ls = mset (m_lines sc) + mset (map call_line cs)"
    using assms by (rule mset_run_calls)
  have "?ls = sort_key (\<lambda>l. sint (frame l)) (m_lines sc @ map call_line cs)"
    if "cs \<noteq> [] \<or> sorted (map (\<lambda>l. sint (frame l)) (m_lines sc))"
      and "distinct (map (\<lambda>l. sint (frame l)) (m_lines sc @ map call_line cs))"
  proof (rule sorted_distinct_frames_unique)
    show "sorted (map (\<lambda>l. sint (frame l)) ?ls)"
      using that(1) by (rule s)
    show "mset ?ls = mset (m_lines sc @ map call_line cs)"
      using m by simp
    show "distinct (map (\<lambda>l. sint (frame l)) (m_lines sc @ map call_line cs))"
      by (rule that(2))
  qed
  with s m show ?thesis
    by blast
qed

text \<open>
  The theorem at work with the sort that reverses lines of equal frame, on a scene
  whose two lines (frames 30 and 10) are out of order: after one \<^verbatim>\<open>add_line\<close> at frame
  20 the three lines are in frame order.
\<close>

theorem lines_sorted_permutation_witness:
  "std_sort_contract reversing_sort
   \<and> [AddLine 20 ''b'' ''jak'' True] \<noteq> []
   \<and> distinct (map (\<lambda>l. sint (frame l))
        ([\<lparr>frame = 30, line = ''a'', speaker = ''jak'', offscreen = False\<rparr>,
          \<lparr>frame = 10, line = [], speaker = [], offscreen = False\<rparr>]
         @ map call_line [AddLine 20 ''b'' ''jak'' True]))
   \<and> m_lines (run_calls reversing_sort [AddLine 20 ''b'' ''jak'' True]
        ((new_GameSubtitleSceneInfo Movie)
           \<lparr>m_lines := [\<lparr>frame = 30, line = ''a'', speaker = ''jak'', offscreen = False\<rparr>,
                        \<lparr>frame = 10, line = [], speaker = [], offscreen = False\<rparr>]\<rparr>))
     = [\<lparr>frame = 10, line = [], speaker = [], offscreen = False\<rparr>,
        \<lparr>frame = 20, line = ''b'', speaker = ''jak'', offscreen = True\<rparr>,
        \<lparr>frame = 30, line = ''a'', speaker = ''jak'', offscreen = False\<rparr>]"
proof -
  let ?old = "[\<lparr>frame = 30, line = ''a'', speaker = ''jak'', offscreen = False\<rparr>,
               \<lparr>frame = 10, line = [], speaker = [], offscreen = False\<rparr>]"
  let ?sc = "(new_GameSubtitleSceneInfo Movie)\<lparr>m_lines := ?old\<rparr>"
  let ?cs = "[AddLine 20 ''b'' ''jak'' True]"
  have n: "?cs \<noteq> []"
    by simp
  have d: "distinct (map (\<lambda>l. sint (frame l)) (?old @ map call_line ?cs))"
    by simp
  have o: "m_lines ?sc = ?old"
    by simp
  note inst = lines_sorted_permutation [OF std_sort_contract_reversing_sort, of ?cs ?sc]
  from inst n d have "m_lines (run_calls reversing_sort ?cs ?sc)
      = sort_key (\<lambda>l. sint (frame l)) (m_lines ?sc @ map call_line ?cs)"
    unfolding o by blast
  then have e: "m_lines (run_calls reversing_sort ?cs ?sc)
      = [\<lparr>frame = 10, line = [], speaker = [], offscreen = False\<rparr>,
         \<lparr>frame = 20, line = ''b'', speaker = ''jak'', offscreen = True\<rparr>,
         \<lparr>frame = 30, line = ''a'', speaker = ''jak'', offscreen = False\<rparr>]"
    by simp
  from std_sort_contract_reversing_sort n d e show ?thesis
    by blast
qed

text \<open>
  \<open>libstdcxx_sort\<close> on short vectors, where it is an insertion sort: two lines of
  equal frame stay as inserted, and lines of different frames come out in frame order.
\<close>

lemma two_equal_frames_kept:
  "m_lines (run_calls (libstdcxx_sort SubtitleLine_less)
     [AddLine 10 ''a'' ''x'' False, AddLine 10 ''b'' ''x'' False]
     (new_GameSubtitleSceneInfo Movie))
   = [\<lparr>frame = 10, line = ''a'', speaker = ''x'', offscreen = False\<rparr>,
      \<lparr>frame = 10, line = ''b'', speaker = ''x'', offscreen = False\<rparr>]"
  by code_simp

lemma three_frames_libstdcxx_sort:
  "m_lines (run_calls (libstdcxx_sort SubtitleLine_less)
     [AddLine 30 ''a'' ''x'' False, AddLine 10 ''b'' ''x'' False, AddLine 20 ''c'' ''x'' False]
     (new_GameSubtitleSceneInfo Movie))
   = [\<lparr>frame = 10, line = ''b'', speaker = ''x'', offscreen = False\<rparr>,
      \<lparr>frame = 20, line = ''c'', speaker = ''x'', offscreen = False\<rparr>,
      \<lparr>frame = 30, line = ''a'', speaker = ''x'', offscreen = False\<rparr>]"
  by code_simp

text \<open>
  Claim C1 as stated fails on the program as g++ builds it, with \<^verbatim>\<open>std::sort\<close> of GNU
  libstdc++. Seventeen \<^verbatim>\<open>add_line\<close> calls at frame 10, with the texts "a" to "q" in
  this order, on a new scene: up to sixteen lines \<^verbatim>\<open>std::sort\<close> is an insertion sort
  and the lines stay as inserted; the sort after the seventeenth call partitions the
  seventeen lines around a pivot, swapping lines that are not less than one another,
  and leaves "i" first and "a" in the tenth place. All lines have frame 10 and the
  insertion order is lost.
\<close>

theorem seventeen_equal_frames_reordered:
  "m_lines (run_calls (libstdcxx_sort SubtitleLine_less)
     [AddLine 10 ''a'' ''x'' False,
      AddLine 10 ''b'' ''x'' False,
      AddLine 10 ''c'' ''x'' False,
      AddLine 10 ''d'' ''x'' False,
      AddLine 10 ''e'' ''x'' False,
      AddLine 10 ''f'' ''x'' False,
      AddLine 10 ''g'' ''x'' False,
      AddLine 10 ''h'' ''x'' False,
      AddLine 10 ''i'' ''x'' False,
      AddLine 10 ''j'' ''x'' False,
      AddLine 10 ''k'' ''x'' False,
      AddLine 10 ''l'' ''x'' False,
      AddLine 10 ''m'' ''x'' False,
      AddLine 10 ''n'' ''x'' False,
      AddLine 10 ''o'' ''x'' False,
      AddLine 10 ''p'' ''x'' False,
      AddLine 10 ''q'' ''x'' False]
     (new_GameSubtitleSceneInfo Movie))
   = [\<lparr>frame = 10, line = ''i'', speaker = ''x'', offscreen = False\<rparr>,
      \<lparr>frame = 10, line = ''q'', speaker = ''x'', offscreen = False\<rparr>,
      \<lparr>frame = 10, line = ''p'', speaker = ''x'', offscreen = False\<rparr>,
      \<lparr>frame = 10, line = ''o'', speaker = ''x'', offscreen = False\<rparr>,
      \<lparr>frame = 10, line = ''n'', speaker = ''x'', offscreen = False\<rparr>,
      \<lparr>frame = 10, line = ''m'', speaker = ''x'', offscreen = False\<rparr>,
      \<lparr>frame = 10, line = ''l'', speaker = ''x'', offscreen = False\<rparr>,
      \<lparr>frame = 10, line = ''k'', speaker = ''x'', offscreen = False\<rparr>,
      \<lparr>frame = 10, line = ''j'', speaker = ''x'', offscreen = False\<rparr>,
      \<lparr>frame = 10, line = ''a'', speaker = ''x'', offscreen = False\<rparr>,
      \<lparr>frame = 10, line = ''h'', speaker = ''x'', offscreen = False\<rparr>,
      \<lparr>frame = 10, line = ''g'', speaker = ''x'', offscreen = False\<rparr>,
      \<lparr>frame = 10, line = ''f'', speaker = ''x'', offscreen = False\<rparr>,
      \<lparr>frame = 10, line = ''e'', speaker = ''x'', offscreen = False\<rparr>,
      \<lparr>frame = 10, line = ''d'', speaker = ''x'', offscreen = False\<rparr>,
      \<lparr>frame = 10, line = ''c'', speaker = ''x'', offscreen = False\<rparr>,
      \<lparr>frame = 10, line = ''b'', speaker = ''x'', offscreen = False\<rparr>]"
  by code_simp

text \<open>
  Claim C6. Whatever \<^verbatim>\<open>std::sort\<close> does within its contract, \<^verbatim>\<open>add_line\<close> at frame 30
  with text "a", then at frame 10 with text "b", then at frame 20 with text "c", on a
  new scene, leaves the lines in the order (10, "b"), (20, "c"), (30, "a"), for any
  speakers and offscreen flags.
\<close>

theorem three_lines_in_frame_order:
  assumes "std_sort_contract srt"
  shows "m_lines (add_line srt 20 ''c'' sp3 off3
            (add_line srt 10 ''b'' sp2 off2
              (add_line srt 30 ''a'' sp1 off1 (new_GameSubtitleSceneInfo k))))
         = [\<lparr>frame = 10, line = ''b'', speaker = sp2, offscreen = off2\<rparr>,
            \<lparr>frame = 20, line = ''c'', speaker = sp3, offscreen = off3\<rparr>,
            \<lparr>frame = 30, line = ''a'', speaker = sp1, offscreen = off1\<rparr>]"
  by (simp add: add_line_def new_GameSubtitleSceneInfo_def std_sort_distinct_frames [OF assms])

text \<open>The theorem at work with the sort that reverses lines of equal frame.\<close>

theorem three_lines_in_frame_order_witness:
  "std_sort_contract reversing_sort
   \<and> m_lines (add_line reversing_sort 20 ''c'' ''sage'' True
            (add_line reversing_sort 10 ''b'' ''jak'' False
              (add_line reversing_sort 30 ''a'' ''daxter'' False (new_GameSubtitleSceneInfo Movie))))
         = [\<lparr>frame = 10, line = ''b'', speaker = ''jak'', offscreen = False\<rparr>,
            \<lparr>frame = 20, line = ''c'', speaker = ''sage'', offscreen = True\<rparr>,
            \<lparr>frame = 30, line = ''a'', speaker = ''daxter'', offscreen = False\<rparr>]"
  using std_sort_contract_reversing_sort
    three_lines_in_frame_order [OF std_sort_contract_reversing_sort,
      of "''sage''" True "''jak''" False "''daxter''" False Movie]
  by simp

subsection \<open>GameSubtitleGroups\<close>

lemma group_scenes_add_scene:
  "group_scenes g' (GameSubtitleGroups_add_scene g s G) =
     (if g' = g
      then (if s \<in> set (group_scenes g G) then group_scenes g G else group_scenes g G @ [s])
      else group_scenes g' G)"
  by (simp add: group_scenes_def GameSubtitleGroups_add_scene_def lookup_update')

lemma group_scenes_remove_scene:
  "group_scenes g' (remove_scene g s G) =
     (if g' = g then removeAll s (group_scenes g G) else group_scenes g' G)"
  by (simp add: group_scenes_def remove_scene_def lookup_update' split: option.splits)

lemma uncategorized_group_add_scene:
  "uncategorized_group (GameSubtitleGroups_add_scene g s G) = uncategorized_group G"
  by (simp add: GameSubtitleGroups_add_scene_def)

lemma uncategorized_group_remove_scene:
  "uncategorized_group (remove_scene g s G) = uncategorized_group G"
  by (simp add: remove_scene_def split: option.splits)

lemma m_group_order_add_scene:
  "m_group_order (GameSubtitleGroups_add_scene g s G) =
     (if g \<in> set (m_group_order G) then m_group_order G else m_group_order G @ [g])"
  by (simp add: GameSubtitleGroups_add_scene_def)

lemma add_scene_twice:
  "GameSubtitleGroups_add_scene g s (GameSubtitleGroups_add_scene g s G) = GameSubtitleGroups_add_scene g s G"
proof -
  let ?G1 = "GameSubtitleGroups_add_scene g s G"
  have o: "g \<in> set (m_group_order ?G1)"
    by (simp add: m_group_order_add_scene)
  have m: "s \<in> set (group_scenes g ?G1)"
    by (simp add: group_scenes_add_scene)
  have l: "Mapping.update g (group_scenes g ?G1) (m_groups ?G1) = m_groups ?G1"
    by (simp add: group_scenes_add_scene) (simp add: GameSubtitleGroups_add_scene_def update_update(1))
  have "GameSubtitleGroups_add_scene g s ?G1 = ?G1\<lparr>m_group_order := m_group_order ?G1, m_groups := m_groups ?G1\<rparr>"
    unfolding GameSubtitleGroups_add_scene_def [of g s ?G1] using o m l by simp
  then show ?thesis
    by simp
qed

lemma count_list_add_scene:
  "count_list (group_scenes g (GameSubtitleGroups_add_scene g s G)) s
     = max 1 (count_list (group_scenes g G) s)"
proof (cases "s \<in> set (group_scenes g G)")
  case True
  then have "count_list (group_scenes g G) s \<noteq> 0"
    by (simp add: count_list_0_iff)
  then have "0 < count_list (group_scenes g G) s"
    by simp
  with True show ?thesis
    by (simp add: group_scenes_add_scene)
next
  case False
  then have "count_list (group_scenes g G) s = 0"
    by (simp add: count_list_0_iff)
  with False show ?thesis
    by (simp add: group_scenes_add_scene)
qed

text \<open>
  Scene lists without duplicates are what \<^verbatim>\<open>add_scene\<close> and \<^verbatim>\<open>remove_scene\<close> keep:
  new groups have none, and neither function makes one.
\<close>

lemma distinct_group_scenes_new: "distinct (group_scenes g new_GameSubtitleGroups)"
  by (simp add: group_scenes_def new_GameSubtitleGroups_def)

lemma distinct_group_scenes_add_scene:
  "distinct (group_scenes g' G) \<Longrightarrow> distinct (group_scenes g' (GameSubtitleGroups_add_scene g s G))"
  by (auto simp add: group_scenes_add_scene)

lemma distinct_group_scenes_remove_scene:
  "distinct (group_scenes g' G) \<Longrightarrow> distinct (group_scenes g' (remove_scene g s G))"
  by (auto simp add: group_scenes_remove_scene distinct_removeAll)

lemma count_list_distinct_add_scene:
  assumes "distinct (group_scenes g G)"
  shows "count_list (group_scenes g (GameSubtitleGroups_add_scene g s G)) s = 1"
proof -
  have "count_list xs s \<le> 1" if "distinct xs" for xs :: "string list"
    using that by (induction xs) auto
  with assms have "count_list (group_scenes g G) s \<le> 1"
    by blast
  then show ?thesis
    by (simp add: count_list_add_scene)
qed

text \<open>
  Claim C7. \<^verbatim>\<open>add_scene(g, s)\<close> appends \<open>g\<close> to the group order only when it is not
  there, appends \<open>s\<close> to the scenes of \<open>g\<close> only when it is not there, and leaves the
  scenes of every other group alone. A second \<^verbatim>\<open>add_scene(g, s)\<close> right after the first
  changes nothing: the groups and the group order are those after the first call.
  When the scenes of \<open>g\<close> had no duplicate before, as in every state that \<^verbatim>\<open>add_scene\<close>
  and \<^verbatim>\<open>remove_scene\<close> reach from new groups, \<open>s\<close> occurs exactly once in the scenes of
  \<open>g\<close> after the two calls and they still have no duplicate.
\<close>

theorem add_scene_idempotent:
  "GameSubtitleGroups_add_scene g s (GameSubtitleGroups_add_scene g s G) = GameSubtitleGroups_add_scene g s G
   \<and> m_group_order (GameSubtitleGroups_add_scene g s (GameSubtitleGroups_add_scene g s G))
       = m_group_order (GameSubtitleGroups_add_scene g s G)
   \<and> m_group_order (GameSubtitleGroups_add_scene g s G)
       = (if g \<in> set (m_group_order G) then m_group_order G else m_group_order G @ [g])
   \<and> group_scenes g (GameSubtitleGroups_add_scene g s G)
       = (if s \<in> set (group_scenes g G) then group_scenes g G else group_scenes g G @ [s])
   \<and> (\<forall>g'. g' \<noteq> g \<longrightarrow> group_scenes g' (GameSubtitleGroups_add_scene g s G) = group_scenes g' G)
   \<and> (distinct (group_scenes g G) \<longrightarrow>
        count_list (group_scenes g (GameSubtitleGroups_add_scene g s (GameSubtitleGroups_add_scene g s G))) s = 1
        \<and> distinct (group_scenes g (GameSubtitleGroups_add_scene g s (GameSubtitleGroups_add_scene g s G))))"
proof (intro conjI allI impI)
  show "GameSubtitleGroups_add_scene g s (GameSubtitleGroups_add_scene g s G) = GameSubtitleGroups_add_scene g s G"
    by (rule add_scene_twice)
  show "m_group_order (GameSubtitleGroups_add_scene g s (GameSubtitleGroups_add_scene g s G))
       = m_group_order (GameSubtitleGroups_add_scene g s G)"
    by (simp add: add_scene_twice)
  show "m_group_order (GameSubtitleGroups_add_scene g s G)
       = (if g \<in> set (m_group_order G) then m_group_order G else m_group_order G @ [g])"
    by (rule m_group_order_add_scene)
  show "group_scenes g (GameSubtitleGroups_add_scene g s G)
       = (if s \<in> set (group_scenes g G) then group_scenes g G else group_scenes g G @ [s])"
    by (simp add: group_scenes_add_scene)
  show "group_scenes g' (GameSubtitleGroups_add_scene g s G) = group_scenes g' G" if "g' \<noteq> g" for g'
    using that by (simp add: group_scenes_add_scene)
  show "count_list (group_scenes g (GameSubtitleGroups_add_scene g s (GameSubtitleGroups_add_scene g s G))) s = 1"
    if "distinct (group_scenes g G)"
    using that by (simp add: add_scene_twice count_list_distinct_add_scene)
  show "distinct (group_scenes g (GameSubtitleGroups_add_scene g s (GameSubtitleGroups_add_scene g s G)))"
    if "distinct (group_scenes g G)"
    using that by (simp add: add_scene_twice distinct_group_scenes_add_scene)
qed

text \<open>
  The theorem at work on the groups with group order "_groups" after
  \<^verbatim>\<open>add_scene("movies", "outro")\<close>: two calls of \<^verbatim>\<open>add_scene("movies", "intro")\<close> leave
  "intro" once in "movies", behind "outro", and "movies" once in the group order.
\<close>

theorem add_scene_idempotent_witness:
  "distinct (group_scenes ''movies''
      (GameSubtitleGroups_add_scene ''movies'' ''outro'' (new_GameSubtitleGroups\<lparr>m_group_order := [''_groups'']\<rparr>)))
   \<and> count_list (group_scenes ''movies''
        (GameSubtitleGroups_add_scene ''movies'' ''intro''
          (GameSubtitleGroups_add_scene ''movies'' ''intro''
            (GameSubtitleGroups_add_scene ''movies'' ''outro''
              (new_GameSubtitleGroups\<lparr>m_group_order := [''_groups'']\<rparr>))))) ''intro'' = 1
   \<and> group_scenes ''movies''
        (GameSubtitleGroups_add_scene ''movies'' ''intro''
          (GameSubtitleGroups_add_scene ''movies'' ''intro''
            (GameSubtitleGroups_add_scene ''movies'' ''outro''
              (new_GameSubtitleGroups\<lparr>m_group_order := [''_groups'']\<rparr>))))
       = [''outro'', ''intro'']
   \<and> m_group_order
        (GameSubtitleGroups_add_scene ''movies'' ''intro''
          (GameSubtitleGroups_add_scene ''movies'' ''intro''
            (GameSubtitleGroups_add_scene ''movies'' ''outro''
              (new_GameSubtitleGroups\<lparr>m_group_order := [''_groups'']\<rparr>))))
       = [''_groups'', ''movies'']"
proof -
  let ?new = "new_GameSubtitleGroups\<lparr>m_group_order := [''_groups'']\<rparr>"
  let ?G = "GameSubtitleGroups_add_scene ''movies'' ''outro'' ?new"
  have e: "group_scenes ''movies'' ?new = []"
    by (simp add: group_scenes_def new_GameSubtitleGroups_def)
  have g: "group_scenes ''movies'' ?G = [''outro'']"
    by (simp add: group_scenes_add_scene e)
  have o: "m_group_order ?G = [''_groups'', ''movies'']"
    by (simp add: m_group_order_add_scene)
  have d: "distinct (group_scenes ''movies'' ?G)"
    by (simp add: g)
  note inst = add_scene_idempotent [of "''movies''" "''intro''" ?G]
  from inst d have c: "count_list (group_scenes ''movies''
      (GameSubtitleGroups_add_scene ''movies'' ''intro'' (GameSubtitleGroups_add_scene ''movies'' ''intro'' ?G)))
      ''intro'' = 1"
    by blast
  from inst have twice: "GameSubtitleGroups_add_scene ''movies'' ''intro''
      (GameSubtitleGroups_add_scene ''movies'' ''intro'' ?G) = GameSubtitleGroups_add_scene ''movies'' ''intro'' ?G"
    by blast
  from inst have "group_scenes ''movies'' (GameSubtitleGroups_add_scene ''movies'' ''intro'' ?G)
      = (if ''intro'' \<in> set (group_scenes ''movies'' ?G) then group_scenes ''movies'' ?G
         else group_scenes ''movies'' ?G @ [''intro''])"
    by blast
  then have s: "group_scenes ''movies'' (GameSubtitleGroups_add_scene ''movies'' ''intro'' ?G) = [''outro'', ''intro'']"
    by (simp add: g)
  from inst have "m_group_order (GameSubtitleGroups_add_scene ''movies'' ''intro'' ?G)
      = (if ''movies'' \<in> set (m_group_order ?G) then m_group_order ?G else m_group_order ?G @ [''movies''])"
    by blast
  then have r: "m_group_order (GameSubtitleGroups_add_scene ''movies'' ''intro'' ?G) = [''_groups'', ''movies'']"
    by (simp add: o)
  from d c s r show ?thesis
    unfolding twice by blast
qed

lemma find_group_unassigned:
  assumes "\<forall>g. s \<notin> set (group_scenes g G)"
  shows "find_group s G = uncategorized_group G"
proof -
  have "List.find (\<lambda>g. s \<in> set (group_scenes g G)) (Mapping.ordered_keys (m_groups G)) = None"
    using assms by (simp add: find_None_iff)
  then show ?thesis
    by (simp add: find_group_def)
qed

text \<open>
  Claim C8. \<^verbatim>\<open>find_group\<close> is a total function to group names: it has no error
  result. When the scene is in the scene list of no group it returns the default
  group name, the field \<^verbatim>\<open>uncategorized_group\<close>. When "intro" is in no group,
  \<^verbatim>\<open>add_scene("movies", "intro")\<close>, then \<^verbatim>\<open>remove_scene("movies", "intro")\<close>, then
  \<^verbatim>\<open>find_group("intro")\<close> returns the default group name.
\<close>

theorem find_group_default:
  "((\<forall>g. s \<notin> set (group_scenes g G)) \<longrightarrow> find_group s G = uncategorized_group G)
   \<and> ((\<forall>g. ''intro'' \<notin> set (group_scenes g G)) \<longrightarrow>
        find_group ''intro''
          (remove_scene ''movies'' ''intro'' (GameSubtitleGroups_add_scene ''movies'' ''intro'' G))
        = uncategorized_group G)"
proof (intro conjI impI)
  assume "\<forall>g. s \<notin> set (group_scenes g G)"
  then show "find_group s G = uncategorized_group G"
    by (rule find_group_unassigned)
next
  let ?G = "remove_scene ''movies'' ''intro'' (GameSubtitleGroups_add_scene ''movies'' ''intro'' G)"
  assume "\<forall>g. ''intro'' \<notin> set (group_scenes g G)"
  then have "\<forall>g. ''intro'' \<notin> set (group_scenes g ?G)"
    by (simp add: group_scenes_remove_scene group_scenes_add_scene)
  then have "find_group ''intro'' ?G = uncategorized_group ?G"
    by (rule find_group_unassigned)
  then show "find_group ''intro'' ?G = uncategorized_group G"
    by (simp add: uncategorized_group_remove_scene uncategorized_group_add_scene)
qed

text \<open>
  The theorem at work on the groups that hold one scene "sage-hint" in group "hints":
  "intro" is in no group, and the default group name is "uncategorized".
\<close>

theorem find_group_default_witness:
  "(\<forall>g. ''intro'' \<notin> set (group_scenes g (GameSubtitleGroups_add_scene ''hints'' ''sage-hint'' new_GameSubtitleGroups)))
   \<and> find_group ''intro'' (GameSubtitleGroups_add_scene ''hints'' ''sage-hint'' new_GameSubtitleGroups) = ''uncategorized''
   \<and> find_group ''intro''
        (remove_scene ''movies'' ''intro''
          (GameSubtitleGroups_add_scene ''movies'' ''intro''
            (GameSubtitleGroups_add_scene ''hints'' ''sage-hint'' new_GameSubtitleGroups)))
      = ''uncategorized''"
proof -
  let ?G = "GameSubtitleGroups_add_scene ''hints'' ''sage-hint'' new_GameSubtitleGroups"
  have e: "group_scenes g new_GameSubtitleGroups = []" for g
    by (simp add: group_scenes_def new_GameSubtitleGroups_def)
  have h: "\<forall>g. ''intro'' \<notin> set (group_scenes g ?G)"
    by (simp add: group_scenes_add_scene e)
  have u: "uncategorized_group ?G = ''uncategorized''"
    by (simp add: uncategorized_group_add_scene new_GameSubtitleGroups_def)
  from h u find_group_default [of "''intro''" ?G] show ?thesis
    by simp
qed

end
